theory Spec2Isabelle
  imports Complex_Main "HOL-Library.AList"
begin

chapter \<open>The embedding\<close>

section \<open>Numbers of the source language\<close>

text \<open>
  The trading service is TypeScript: every \<open>number\<close> is a binary64 floating-point value
  and every \<open>bigint\<close> an unbounded integer. The development models \<open>bigint\<close> as
  \<^typ>\<open>int\<close> and \<open>number\<close> as \<^typ>\<open>real\<close>, and writes out the places where the
  language leaves the finite numbers: a division whose divisor can be zero yields
  \<open>Infinity\<close> or \<open>NaN\<close>, a read past the end of an array yields \<open>undefined\<close>, and a
  condition on a number treats \<open>0\<close> as false.
\<close>

datatype jsnum = Fin real | PosInf | NegInf | NaN

definition jsdiv :: "real \<Rightarrow> real \<Rightarrow> jsnum" where
  \<comment> \<open>\<open>a / b\<close> on finite numbers (a zero divisor is taken as \<open>+0\<close>)\<close>
  "jsdiv a b =
     (if b \<noteq> 0 then Fin (a / b)
      else if 0 < a then PosInf
      else if a < 0 then NegInf
      else NaN)"

definition truthy :: "real \<Rightarrow> bool" where
  \<comment> \<open>a finite number used as a condition\<close>
  "truthy x = (x \<noteq> 0)"

definition jsOr :: "real option \<Rightarrow> real option \<Rightarrow> real option" where
  \<comment> \<open>\<open>a || b\<close> on optional numbers: \<open>None\<close> is \<open>undefined\<close> or \<open>null\<close>\<close>
  "jsOr a b = (case a of None \<Rightarrow> b | Some x \<Rightarrow> if truthy x then Some x else b)"

subsection \<open>Rounding\<close>

text \<open>
  Arithmetic is exact where no result is compared at a boundary or cut to an integer.
  The thresholds of the position monitor are products that a price is compared with, at
  the threshold itself in the examples of the specification, and the slippage is
  multiplied by 100 and floored; their arithmetic takes the rounding of each operation
  as a parameter: \<open>exact\<close> does not round, \<open>binary64\<close> rounds to the nearest number with
  53 significant bits, ties to the even one, as the runtime does (overflow and subnormal
  numbers apart).
\<close>

type_synonym rounding = "real \<Rightarrow> real"

definition exact :: rounding where
  "exact x = x"

definition roundEven :: "real \<Rightarrow> int" where
  "roundEven x =
     (let f = \<lfloor>x\<rfloor>; d = x - of_int f
      in if d < 1 / 2 then f
         else if 1 / 2 < d then f + 1
         else if even f then f else f + 1)"

definition binary64At :: "int \<Rightarrow> real \<Rightarrow> real" where
  \<comment> \<open>the nearest multiple of \<open>2\<^sup>e\<close>\<close>
  "binary64At e x = of_int (roundEven (x / 2 powr of_int e)) * 2 powr of_int e"

definition binary64 :: rounding where
  "binary64 x = (if x = 0 then 0 else binary64At (\<lfloor>log 2 \<bar>x\<bar>\<rfloor> - 52) x)"

definition fsub :: "rounding \<Rightarrow> real \<Rightarrow> real \<Rightarrow> real" where
  "fsub rnd a b = rnd (a - b)"

definition fadd :: "rounding \<Rightarrow> real \<Rightarrow> real \<Rightarrow> real" where
  "fadd rnd a b = rnd (a + b)"

definition fmul :: "rounding \<Rightarrow> real \<Rightarrow> real \<Rightarrow> real" where
  "fmul rnd a b = rnd (a * b)"

definition fdiv :: "rounding \<Rightarrow> real \<Rightarrow> real \<Rightarrow> real" where
  \<comment> \<open>the divisor is a non-zero constant wherever this is used\<close>
  "fdiv rnd a b = rnd (a / b)"

definition roundsMonotone :: "rounding \<Rightarrow> bool" where
  \<comment> \<open>what the bounds below need of a rounding: on numbers that are not negative it
      keeps the order, and it keeps zero and the sign\<close>
  "roundsMonotone rnd =
     ((\<forall>x y. 0 \<le> x \<and> x \<le> y \<longrightarrow> rnd x \<le> rnd y) \<and> rnd 0 = 0 \<and> (\<forall>x. 0 < x \<longrightarrow> 0 < rnd x))"

subsection \<open>Arithmetic with the infinities\<close>

text \<open>The operations on numbers that may be \<open>Infinity\<close> or \<open>NaN\<close>; a finite result is
  rounded, and is taken to stay within the range of binary64.\<close>

definition jsDivide :: "rounding \<Rightarrow> real \<Rightarrow> real \<Rightarrow> jsnum" where
  "jsDivide rnd a b = (case jsdiv a b of Fin q \<Rightarrow> Fin (rnd q) | other \<Rightarrow> other)"

fun jsAdd :: "rounding \<Rightarrow> jsnum \<Rightarrow> jsnum \<Rightarrow> jsnum" where
  "jsAdd rnd (Fin a) (Fin b) = Fin (rnd (a + b))"
| "jsAdd rnd NaN b = NaN"
| "jsAdd rnd a NaN = NaN"
| "jsAdd rnd PosInf NegInf = NaN"
| "jsAdd rnd NegInf PosInf = NaN"
| "jsAdd rnd PosInf b = PosInf"
| "jsAdd rnd a PosInf = PosInf"
| "jsAdd rnd NegInf b = NegInf"
| "jsAdd rnd a NegInf = NegInf"

fun jsSub :: "rounding \<Rightarrow> jsnum \<Rightarrow> jsnum \<Rightarrow> jsnum" where
  "jsSub rnd (Fin a) (Fin b) = Fin (rnd (a - b))"
| "jsSub rnd NaN b = NaN"
| "jsSub rnd a NaN = NaN"
| "jsSub rnd PosInf PosInf = NaN"
| "jsSub rnd NegInf NegInf = NaN"
| "jsSub rnd PosInf b = PosInf"
| "jsSub rnd a PosInf = NegInf"
| "jsSub rnd NegInf b = NegInf"
| "jsSub rnd a NegInf = PosInf"

definition signedInfinity :: "bool \<Rightarrow> jsnum" where
  \<comment> \<open>the infinity of the given sign (\<open>True\<close>: positive)\<close>
  "signedInfinity positive = (if positive then PosInf else NegInf)"

definition infiniteTimes :: "bool \<Rightarrow> real \<Rightarrow> jsnum" where
  \<comment> \<open>an infinity times a finite number\<close>
  "infiniteTimes positive b =
     (if b = 0 then NaN else signedInfinity (positive = (0 < b)))"

fun jsMul :: "rounding \<Rightarrow> jsnum \<Rightarrow> jsnum \<Rightarrow> jsnum" where
  "jsMul rnd (Fin a) (Fin b) = Fin (rnd (a * b))"
| "jsMul rnd NaN b = NaN"
| "jsMul rnd a NaN = NaN"
| "jsMul rnd PosInf (Fin b) = infiniteTimes True b"
| "jsMul rnd NegInf (Fin b) = infiniteTimes False b"
| "jsMul rnd (Fin a) PosInf = infiniteTimes True a"
| "jsMul rnd (Fin a) NegInf = infiniteTimes False a"
| "jsMul rnd PosInf PosInf = PosInf"
| "jsMul rnd NegInf NegInf = PosInf"
| "jsMul rnd PosInf NegInf = NegInf"
| "jsMul rnd NegInf PosInf = NegInf"

definition jsPow15 :: "rounding \<Rightarrow> jsnum \<Rightarrow> jsnum" where
  \<comment> \<open>\<open>a ** 1.5\<close>; the runtime's power may miss the rounded power by a unit in the last
      place, and the properties below use of it only that it is not negative\<close>
  "jsPow15 rnd a =
     (case a of
        Fin x \<Rightarrow> if x < 0 then NaN else Fin (rnd (x powr 1.5))
      | PosInf \<Rightarrow> PosInf
      | NegInf \<Rightarrow> PosInf
      | NaN \<Rightarrow> NaN)"

definition jsGreater :: "jsnum \<Rightarrow> real \<Rightarrow> bool" where
  \<comment> \<open>\<open>a > c\<close> for a finite \<open>c\<close>\<close>
  "jsGreater a c =
     (case a of Fin x \<Rightarrow> c < x | PosInf \<Rightarrow> True | NegInf \<Rightarrow> False | NaN \<Rightarrow> False)"

definition jsMax :: "jsnum \<Rightarrow> real \<Rightarrow> jsnum" where
  \<comment> \<open>\<open>Math.max(a, c)\<close> for a finite \<open>c\<close>\<close>
  "jsMax a c =
     (case a of Fin x \<Rightarrow> Fin (max x c) | PosInf \<Rightarrow> PosInf | NegInf \<Rightarrow> Fin c | NaN \<Rightarrow> NaN)"

definition jsMin :: "jsnum \<Rightarrow> real \<Rightarrow> jsnum" where
  \<comment> \<open>\<open>Math.min(a, c)\<close> for a finite \<open>c\<close>\<close>
  "jsMin a c =
     (case a of Fin x \<Rightarrow> Fin (min x c) | PosInf \<Rightarrow> Fin c | NegInf \<Rightarrow> NegInf | NaN \<Rightarrow> NaN)"

definition jsFloor :: "jsnum \<Rightarrow> jsnum" where
  "jsFloor a = (case a of Fin x \<Rightarrow> Fin (of_int \<lfloor>x\<rfloor>) | other \<Rightarrow> other)"

definition jsBetween :: "real \<Rightarrow> real \<Rightarrow> jsnum \<Rightarrow> bool" where
  \<comment> \<open>a finite number within the two bounds\<close>
  "jsBetween lo hi a =
     (case a of Fin x \<Rightarrow> lo \<le> x \<and> x \<le> hi | PosInf \<Rightarrow> False | NegInf \<Rightarrow> False | NaN \<Rightarrow> False)"

definition jsAtLeast :: "real \<Rightarrow> jsnum \<Rightarrow> bool" where
  \<comment> \<open>a finite number at or above the bound, or \<open>Infinity\<close>\<close>
  "jsAtLeast lo a = (case a of Fin x \<Rightarrow> lo \<le> x | PosInf \<Rightarrow> True | NegInf \<Rightarrow> False | NaN \<Rightarrow> False)"

section \<open>Configuration\<close>

record risk_limits =
  maxPositionSize :: real
  maxDrawdown :: real
  stopLossPercentage :: real
  takeProfitPercentage :: real

record slippage_settings =
  baseSlippage :: real
  maxSlippage :: real
  liquidityMultiplier :: real
  volumeMultiplier :: real

section \<open>Market data\<close>

text \<open>\<open>getTokenPrice\<close> returns the first four fields, \<open>getTokenMarketData\<close> all six.\<close>

record token_price =
  price :: real
  marketCap :: real
  liquidity :: real
  volume24h :: real

record market_data = token_price +
  priceHistory :: "real list"
  volumeHistory :: "real list"

section \<open>Technical indicators\<close>

subsection \<open>calculateRSI\<close>

definition rsiInitStep :: "real list \<Rightarrow> nat \<Rightarrow> real \<times> real \<Rightarrow> real \<times> real" where
  \<comment> \<open>the body of the first loop, on \<open>(gains, losses)\<close>\<close>
  "rsiInitStep prices i = (\<lambda>(gains, losses).
     let change = prices ! i - prices ! (i - 1)
     in if change \<ge> 0 then (gains + change, losses) else (gains, losses - change))"

definition rsiSmoothStep :: "real list \<Rightarrow> nat \<Rightarrow> nat \<Rightarrow> real \<times> real \<Rightarrow> real \<times> real" where
  \<comment> \<open>the body of the second loop, on \<open>(avgGain, avgLoss)\<close>\<close>
  "rsiSmoothStep prices period i = (\<lambda>(avgGain, avgLoss).
     let change = prices ! i - prices ! (i - 1)
     in if change \<ge> 0
        then ((avgGain * (real period - 1) + change) / real period,
              (avgLoss * (real period - 1)) / real period)
        else ((avgGain * (real period - 1)) / real period,
              (avgLoss * (real period - 1) - change) / real period))"

definition rsiAverages :: "real list \<Rightarrow> nat \<Rightarrow> real \<times> real" where
  \<comment> \<open>\<open>(avgGain, avgLoss)\<close> as the final division finds them; \<open>period\<close> is positive and
      \<open>prices\<close> has more than \<open>period\<close> elements, so every read is in range\<close>
  "rsiAverages prices period =
     (let (gains, losses) = fold (rsiInitStep prices) [1..<Suc period] (0, 0);
          avgGain = gains / real period;
          avgLoss = losses / real period
      in fold (rsiSmoothStep prices period) [Suc period..<length prices] (avgGain, avgLoss))"

definition rsiOfRs :: "jsnum \<Rightarrow> jsnum" where
  \<comment> \<open>\<open>100 - 100 / (1 + rs)\<close>\<close>
  "rsiOfRs rs =
     (case rs of
        Fin r \<Rightarrow>
          (case jsdiv 100 (1 + r) of
             Fin q \<Rightarrow> Fin (100 - q)
           | PosInf \<Rightarrow> NegInf
           | NegInf \<Rightarrow> PosInf
           | NaN \<Rightarrow> NaN)
      | PosInf \<Rightarrow> Fin 100
      | NegInf \<Rightarrow> Fin 100
      | NaN \<Rightarrow> NaN)"

definition calculateRSI :: "real list \<Rightarrow> nat \<Rightarrow> jsnum" where
  \<comment> \<open>With \<open>period = 0\<close> both averages start as \<open>0 / 0\<close> and stay \<open>NaN\<close>.\<close>
  "calculateRSI prices period =
     (if length prices < period + 1 then Fin 50
      else if period = 0 then NaN
      else
        let (avgGain, avgLoss) = rsiAverages prices period;
            rs = jsdiv avgGain avgLoss
        in rsiOfRs rs)"

subsection \<open>calculateEMA and calculateMACD\<close>

fun emaLoop :: "real \<Rightarrow> real \<Rightarrow> real list \<Rightarrow> real" where
  \<comment> \<open>\<open>for (i = period; i < prices.length; i++) ema = (prices[i] - ema) * multiplier + ema\<close>\<close>
  "emaLoop multiplier ema [] = ema"
| "emaLoop multiplier ema (p # ps) = emaLoop multiplier ((p - ema) * multiplier + ema) ps"

definition emaSeed :: "real list \<Rightarrow> nat \<Rightarrow> real" where
  \<comment> \<open>\<open>prices.slice(0, period).reduce((sum, price) => sum + price, 0) / period\<close>\<close>
  "emaSeed prices period = foldl (+) 0 (take period prices) / real period"

definition emaValue :: "real list \<Rightarrow> nat \<Rightarrow> real" where
  \<comment> \<open>the value of \<open>calculateEMA\<close> where it is a finite number:
      a non-empty series and a positive period\<close>
  "emaValue prices period =
     (if length prices < period then last prices
      else emaLoop (2 / (real period + 1)) (emaSeed prices period) (drop period prices))"

definition calculateEMA :: "real list \<Rightarrow> nat \<Rightarrow> jsnum option" where
  \<comment> \<open>\<open>None\<close> is \<open>undefined\<close>: the last element of an empty array. With \<open>period = 0\<close>
      the seed is \<open>0 / 0\<close>, and every step of the loop keeps \<open>NaN\<close>.\<close>
  "calculateEMA prices period =
     (if length prices < period \<and> prices = [] then None
      else if period = 0 then Some NaN
      else Some (Fin (emaValue prices period)))"

record macd_result =
  macd :: real
  signal :: real
  histogram :: real

definition calculateMACD :: "real list \<Rightarrow> macd_result" where
  \<comment> \<open>every call of \<open>calculateEMA\<close> here has a non-empty series and a positive period\<close>
  "calculateMACD prices =
     (let shortPeriod = 12; longPeriod = 26; signalPeriod = 9 in
      if length prices < longPeriod then \<lparr>macd = 0, signal = 0, histogram = 0\<rparr>
      else
        let shortEMA = emaValue prices shortPeriod;
            longEMA = emaValue prices longPeriod;
            macdLine = shortEMA - longEMA;
            signalLine = emaValue [macdLine] signalPeriod;
            histogram = macdLine - signalLine
        in \<lparr>macd = macdLine, signal = signalLine, histogram = histogram\<rparr>)"

subsection \<open>calculateVolatility\<close>

definition calculateVolatility :: "real list \<Rightarrow> real" where
  \<comment> \<open>finite for a history without a zero price\<close>
  "calculateVolatility prices =
     (if length prices < 2 then 0
      else
        let returns = map (\<lambda>i. (prices ! i - prices ! (i - 1)) / prices ! (i - 1))
                          [1..<length prices];
            mean = foldl (+) 0 returns / real (length returns);
            variance = foldl (\<lambda>sum ret. sum + (ret - mean)\<^sup>2) 0 returns
                         / real (length returns)
        in sqrt variance)"

section \<open>Position sizing\<close>

datatype market_condition = bullish | neutral | bearish

record token_signal =
  score :: real
  signal_liquidity :: real
  volatility :: "real option"  \<comment> \<open>\<open>token.technicalSignals?.volatility\<close>\<close>

definition calculateOptimalBuyAmount ::
  "risk_limits \<Rightarrow> real \<Rightarrow> real \<Rightarrow> token_signal \<Rightarrow> market_condition \<Rightarrow> real" where
  \<comment> \<open>\<open>walletBalance\<close> is what \<open>getWalletBalance\<close> returned, \<open>drawdown\<close> the field of the
      portfolio status, \<open>marketCondition\<close> what \<open>assessMarketCondition\<close> returned;
      \<open>maxDrawdown\<close> is not zero (\<open>validateConfiguration\<close> keeps it in \<open>(0, 0.5]\<close>)\<close>
  "calculateOptimalBuyAmount limits walletBalance drawdown token marketCondition =
     (let availableCapital = walletBalance * (1 - drawdown / maxDrawdown limits) in
      if availableCapital \<le> 0 then 0
      else
        let basePercentage = min (score token / 200) (maxPositionSize limits);
            adjustedPercentage =
              (case volatility token of
                 None \<Rightarrow> basePercentage
               | Some v \<Rightarrow>
                   if truthy v then basePercentage * max 0.5 (1 - v) else basePercentage);
            adjustedPercentage =
              (if marketCondition = bearish then adjustedPercentage * 0.5
               else adjustedPercentage);
            rawPositionSize = availableCapital * adjustedPercentage;
            maxLiquidityImpact = signal_liquidity token * 0.02;
            minTradeSize = 0.05
        in max minTradeSize (min rawPositionSize maxLiquidityImpact))"

section \<open>Dynamic slippage\<close>

text \<open>Every operation of \<open>calculateDynamicSlippage\<close> rounds; the decimal constants
  \<open>0.1\<close>, \<open>0.01\<close> and \<open>0.05\<close> are the numbers they round to. The two ratios are infinite or
  \<open>NaN\<close> for a token without liquidity or market cap, which is what \<open>getTokenPrice\<close>
  reports for a token the provider does not know.\<close>

definition slippageBeforeCap ::
  "rounding \<Rightarrow> slippage_settings \<Rightarrow> jsnum \<Rightarrow> jsnum \<Rightarrow> real option \<Rightarrow> jsnum" where
  \<comment> \<open>the variable \<open>slippage\<close> when the cap is applied, from \<open>liquidityPercentage\<close>,
      \<open>volumeToMcapRatio\<close> and the special adjustment (\<open>None\<close>: the token has no special
      requirement)\<close>
  "slippageBeforeCap rnd settings liquidityPercentage volumeToMcapRatio special =
     (let slippage = Fin (baseSlippage settings);
          slippage =
            (if jsGreater liquidityPercentage (rnd 0.1)
             then let liquidityFactor =
                        jsMul rnd (jsPow15 rnd liquidityPercentage)
                          (Fin (liquidityMultiplier settings))
                  in jsAdd rnd slippage (jsMul rnd liquidityFactor (Fin (rnd 0.01)))
             else slippage);
          slippage =
            (if jsGreater volumeToMcapRatio (rnd 0.05)
             then let volumeDiscount =
                        jsMul rnd (jsMin (jsMul rnd volumeToMcapRatio (Fin 5)) 0.5)
                          (Fin (volumeMultiplier settings))
                  in jsMax (jsSub rnd slippage volumeDiscount)
                       (rnd (baseSlippage settings * 0.5))
             else slippage)
      in case special of
           None \<Rightarrow> slippage
         | Some specialAdjustment \<Rightarrow> jsAdd rnd slippage (Fin specialAdjustment))"

definition finalSlippage ::
  "rounding \<Rightarrow> slippage_settings \<Rightarrow> jsnum \<Rightarrow> jsnum \<Rightarrow> real option \<Rightarrow> jsnum" where
  "finalSlippage rnd settings liquidityPercentage volumeToMcapRatio special =
     jsMin (slippageBeforeCap rnd settings liquidityPercentage volumeToMcapRatio special)
       (maxSlippage settings)"

definition liquidityPercentageOf :: "rounding \<Rightarrow> token_price \<Rightarrow> real \<Rightarrow> bool \<Rightarrow> jsnum" where
  "liquidityPercentageOf rnd tokenData tradeAmount isSell =
     (let tradeValue = (if isSell then rnd (tradeAmount * price tokenData) else tradeAmount)
      in jsMul rnd (jsDivide rnd tradeValue (liquidity tokenData)) (Fin 100))"

definition volumeToMcapRatioOf :: "rounding \<Rightarrow> token_price \<Rightarrow> jsnum" where
  "volumeToMcapRatioOf rnd tokenData = jsDivide rnd (volume24h tokenData) (marketCap tokenData)"

definition calculateDynamicSlippage ::
  "rounding \<Rightarrow> slippage_settings \<Rightarrow> token_price option \<Rightarrow> real \<Rightarrow> bool \<Rightarrow> real option \<Rightarrow> jsnum"
  where
  \<comment> \<open>\<open>tokenData = None\<close>: the lookup threw, the \<open>catch\<close> returns the fallback\<close>
  "calculateDynamicSlippage rnd settings tokenData tradeAmount isSell special =
     (case tokenData of
        None \<Rightarrow> Fin 100
      | Some td \<Rightarrow>
          let liquidityPercentage = liquidityPercentageOf rnd td tradeAmount isSell;
              volumeToMcapRatio = volumeToMcapRatioOf rnd td;
              final = finalSlippage rnd settings liquidityPercentage volumeToMcapRatio special
          in jsFloor (jsMul rnd final (Fin 100)))"

section \<open>Position monitor\<close>

record sell_signal =
  sell_token :: string
  sell_amount :: int  \<comment> \<open>the decimal string of a \<open>bigint\<close>\<close>
  sell_reason :: string

record trailing_stop =
  stop_token :: string
  highestPrice :: real
  activationPrice :: real
  trailingStopPercentage :: real
  stop_amount :: int
  createdAt :: nat

text \<open>What a tick can change: the sell signals handed to \<open>createSellTask\<close> (oldest
  first), the cache entries \<open>trailing_stop:<token>\<close> and the trailing-stop monitoring
  tasks created.\<close>

record monitor_state =
  sellSignals :: "sell_signal list"
  trailingStops :: "string \<rightharpoonup> trailing_stop"
  trailingStopTasks :: "string list"

record monitor_options =
  initialPrice :: "real option"
  stopLossPrice :: "real option"
  takeProfitPrice :: "real option"

text \<open>The \<open>return\<close> statement a tick of \<open>monitorToken\<close> left by; the first four return
  \<open>undefined\<close>, the last one the report (its price and price change are kept).\<close>

datatype monitor_result =
  NoPosition | NoPrice | StopLossExit | TakeProfitPartial | Report real real
  | MonitorError  \<comment> \<open>the \<open>catch\<close>: \<open>{ error: true, message }\<close>\<close>

record trade_performance =
  perf_isSimulation :: bool

datatype lookup_error = TypeError

definition getLatestTradePerformance ::
  "trade_performance option \<Rightarrow> trade_performance option \<Rightarrow> bool
     \<Rightarrow> lookup_error + trade_performance option" where
  \<comment> \<open>\<open>cached\<close> is the cache entry \<open><token>:<recommender>\<close>. The condition in front of
      its read tests the promise of the entry, which is never false, so a missing
      entry is read all the same and \<open>cached.isSimulation\<close> throws; the function's own
      \<open>catch\<close> throws it on. \<open>latestRecord\<close> is the full record of the newest entry of
      the performance index for the token and the recommender, if there is one.\<close>
  "getLatestTradePerformance cached latestRecord isSimulation =
     (case cached of
        None \<Rightarrow> Inl TypeError
      | Some c \<Rightarrow>
          if perf_isSimulation c = isSimulation then Inr (Some c) else Inr latestRecord)"

definition noPosition :: "int option \<Rightarrow> bool" where
  \<comment> \<open>\<open>!currentBalance || BigInt(currentBalance.toString()) <= BigInt(0)\<close>\<close>
  "noPosition currentBalance = (case currentBalance of None \<Rightarrow> True | Some b \<Rightarrow> b \<le> 0)"

definition createSellSignal :: "string \<Rightarrow> int \<Rightarrow> string \<Rightarrow> monitor_state \<Rightarrow> monitor_state" where
  "createSellSignal tokenAddress amount reason st =
     st\<lparr>sellSignals := sellSignals st @
           [\<lparr>sell_token = tokenAddress, sell_amount = amount, sell_reason = reason\<rparr>]\<rparr>"

definition setTrailingStop ::
  "string \<Rightarrow> real \<Rightarrow> int \<Rightarrow> nat \<Rightarrow> monitor_state \<Rightarrow> monitor_state" where
  "setTrailingStop tokenAddress activation amount now st =
     (let trailingStopPercentage = 5 in
      st\<lparr>trailingStops := (trailingStops st)(tokenAddress \<mapsto>
             \<lparr>stop_token = tokenAddress, highestPrice = activation,
              activationPrice = activation,
              trailingStopPercentage = trailingStopPercentage,
              stop_amount = amount, createdAt = now\<rparr>),
          trailingStopTasks := trailingStopTasks st @ [tokenAddress]\<rparr>)"

definition thresholdBelow :: "rounding \<Rightarrow> real \<Rightarrow> real \<Rightarrow> real" where
  \<comment> \<open>\<open>base * (1 - percentage / 100)\<close>\<close>
  "thresholdBelow rnd base percentage = fmul rnd base (fsub rnd 1 (fdiv rnd percentage 100))"

definition thresholdAbove :: "rounding \<Rightarrow> real \<Rightarrow> real \<Rightarrow> real" where
  \<comment> \<open>\<open>base * (1 + percentage / 100)\<close>\<close>
  "thresholdAbove rnd base percentage = fmul rnd base (fadd rnd 1 (fdiv rnd percentage 100))"

definition fromInitialPrice :: "monitor_options \<Rightarrow> (real \<Rightarrow> real) \<Rightarrow> real option" where
  \<comment> \<open>\<open>options.initialPrice ? f(options.initialPrice) : null\<close>\<close>
  "fromInitialPrice options f =
     (case initialPrice options of
        None \<Rightarrow> None
      | Some ip \<Rightarrow> if truthy ip then Some (f ip) else None)"

definition reaches :: "real option \<Rightarrow> (real \<Rightarrow> bool) \<Rightarrow> bool" where
  \<comment> \<open>\<open>threshold && test(threshold)\<close>\<close>
  "reaches threshold test =
     (case threshold of None \<Rightarrow> False | Some x \<Rightarrow> truthy x \<and> test x)"

definition monitorToken ::
  "rounding \<Rightarrow> risk_limits \<Rightarrow> string \<Rightarrow> monitor_options \<Rightarrow> int option \<Rightarrow> market_data
     \<Rightarrow> trade_performance option \<Rightarrow> trade_performance option \<Rightarrow> nat
     \<Rightarrow> monitor_state \<Rightarrow> monitor_result \<times> monitor_state" where
  \<comment> \<open>\<open>currentBalance\<close> is what \<open>getTokenBalance\<close> returned, \<open>marketData\<close> what
      \<open>getTokenMarketData\<close> returned, \<open>cachedPerformance\<close> and \<open>latestRecord\<close> what
      \<open>getLatestTradePerformance\<close> finds for the token and the recommender \<open>default\<close>,
      \<open>now\<close> the clock. A \<open>bigint\<close> division truncates; the balance is positive where it
      is divided.\<close>
  "monitorToken rnd limits tokenAddress options currentBalance marketData
       cachedPerformance latestRecord now st =
     (if noPosition currentBalance then (NoPosition, st)
      else if \<not> truthy (price marketData) then (NoPrice, st)
      else
        let balance = the currentBalance;
            priceChangePercent =
              (case fromInitialPrice options
                      (\<lambda>ip. fmul rnd (fdiv rnd (fsub rnd (price marketData) ip) ip) 100) of
                 None \<Rightarrow> 0 | Some c \<Rightarrow> c)
        in case getLatestTradePerformance cachedPerformance latestRecord False of
             Inl thrown \<Rightarrow> (MonitorError, st)
           | Inr performance \<Rightarrow>
        let stopLoss =
              jsOr (stopLossPrice options)
                   (fromInitialPrice options
                      (\<lambda>ip. thresholdBelow rnd ip (stopLossPercentage limits)))
        in if reaches stopLoss (\<lambda>s. price marketData \<le> s)
           then (StopLossExit, createSellSignal tokenAddress balance ''Stop loss triggered'' st)
           else
             let takeProfit =
                   jsOr (takeProfitPrice options)
                        (fromInitialPrice options
                           (\<lambda>ip. thresholdAbove rnd ip (takeProfitPercentage limits)))
             in if reaches takeProfit (\<lambda>t. price marketData \<ge> t)
                then
                  let halfPosition = balance div 2
                  in (TakeProfitPartial,
                      setTrailingStop tokenAddress (price marketData) (balance div 2) now
                        (createSellSignal tokenAddress halfPosition
                           ''Take profit - selling half position'' st))
                else
                  let technicalMacd =
                        (if priceHistory marketData = []
                         then \<lparr>macd = 0, signal = 0, histogram = 0\<rparr>
                         else calculateMACD (priceHistory marketData));
                      st' =
                        (if priceChangePercent > 0
                            \<and> histogram technicalMacd < 0
                            \<and> macd technicalMacd < signal technicalMacd
                         then createSellSignal tokenAddress (balance * 3 div 4)
                                ''Negative momentum while in profit'' st
                         else st)
                  in (Report (price marketData) priceChangePercent, st'))"

definition monitorTrailingStop ::
  "rounding \<Rightarrow> string \<Rightarrow> int option \<Rightarrow> market_data \<Rightarrow> monitor_state \<Rightarrow> monitor_state" where
  "monitorTrailingStop rnd tokenAddress currentBalance marketData st =
     (case trailingStops st tokenAddress of
        None \<Rightarrow> st
      | Some trailingStop \<Rightarrow>
          if noPosition currentBalance
          then st\<lparr>trailingStops := (trailingStops st)(tokenAddress := None)\<rparr>
          else if \<not> truthy (price marketData) then st
          else
            let raised = (price marketData > highestPrice trailingStop);
                trailingStop =
                  (if raised then trailingStop\<lparr>highestPrice := price marketData\<rparr>
                   else trailingStop);
                st =
                  (if raised
                   then st\<lparr>trailingStops := (trailingStops st)(tokenAddress \<mapsto> trailingStop)\<rparr>
                   else st);
                stopPrice =
                  thresholdBelow rnd (highestPrice trailingStop)
                    (trailingStopPercentage trailingStop)
            in if price marketData \<le> stopPrice
               then
                 let st = createSellSignal tokenAddress (stop_amount trailingStop)
                            ''Trailing stop triggered'' st
                 in st\<lparr>trailingStops := (trailingStops st)(tokenAddress := None)\<rparr>
               else st)"

section \<open>Portfolio status and drawdown\<close>

record position_entry =
  position_amount :: real
  position_value :: real

record portfolio_status =
  totalValue :: real
  positions :: "(string \<times> position_entry) list"
  solBalance :: real
  drawdown :: real

record holding =
  holding_address :: string
  holding_balance :: real  \<comment> \<open>\<open>Number(balance)\<close>\<close>
  holding_price :: real

definition addPosition ::
  "holding \<Rightarrow> (string \<times> position_entry) list \<times> real \<Rightarrow> (string \<times> position_entry) list \<times> real"
  where
  \<comment> \<open>the body of the loop over the monitored tokens, on \<open>(positions, totalValue)\<close>;
      an assignment to a key replaces the entry there\<close>
  "addPosition h = (\<lambda>(positions, totalValue).
     let val = holding_balance h * holding_price h
     in if val > 0
        then (AList.update (holding_address h)
                \<lparr>position_amount = holding_balance h, position_value = val\<rparr> positions,
              totalValue + val)
        else (positions, totalValue))"

definition getHighWaterMark :: "real option \<Rightarrow> real" where
  \<comment> \<open>\<open>cached || 0\<close> on the entry \<open>portfolio_high_water_mark\<close>\<close>
  "getHighWaterMark cached = (case cached of None \<Rightarrow> 0 | Some v \<Rightarrow> if truthy v then v else 0)"

definition getPortfolioStatus ::
  "real \<Rightarrow> holding list \<Rightarrow> real option \<Rightarrow> portfolio_status \<times> real option" where
  \<comment> \<open>from the wallet balance, the monitored tokens with their balances and prices, and
      the entry \<open>portfolio_high_water_mark\<close> of the service's own cache: the status, and
      the entry afterwards. The service creates the cache empty, and no statement of
      the service writes this entry.\<close>
  "getPortfolioStatus walletBalance monitored cachedMark =
     (let (positions, totalValue) = fold addPosition monitored ([], walletBalance);
          highWaterMark = getHighWaterMark cachedMark;
          drawdown =
            (if highWaterMark > 0 then (highWaterMark - totalValue) / highWaterMark else 0)
      in (\<lparr>totalValue = totalValue, positions = positions, solBalance = walletBalance,
           drawdown = drawdown\<rparr>,
          cachedMark))"

definition calculateDrawdown :: "real option \<Rightarrow> real \<Rightarrow> jsnum \<times> real option" where
  \<comment> \<open>from the cache entry \<open>portfolio_hwm\<close> and \<open>portfolio.totalValue\<close>: the drawdown
      returned and the cache entry afterwards\<close>
  "calculateDrawdown cachedHwm portfolioValue =
     (let hwm = (case jsOr cachedHwm (Some portfolioValue) of
                   None \<Rightarrow> portfolioValue | Some h \<Rightarrow> h) in
      if portfolioValue > hwm then (Fin 0, Some portfolioValue)
      else (jsdiv (hwm - portfolioValue) hwm, cachedHwm))"

section \<open>Circuit breaker\<close>

datatype breaker_reason = extreme_price_movement | high_volatility

record circuit_breaker_entry =
  triggered :: bool
  breaker_reason :: breaker_reason
  breaker_timestamp :: nat
  details_priceChangePercent :: real
  details_volatility :: real

record trading_paused_entry =
  paused :: bool
  paused_reason :: string
  paused_timestamp :: nat
  expiryTime :: nat

text \<open>The two cache entries the check writes, \<open>circuit_breaker\<close> and \<open>trading_paused\<close>;
  times are milliseconds.\<close>

record breaker_cache =
  circuit_breaker :: "circuit_breaker_entry option"
  trading_paused :: "trading_paused_entry option"

definition circuitBreakerTriggered :: "real \<Rightarrow> real \<Rightarrow> bool" where
  "circuitBreakerTriggered priceChangePercent vol =
     (\<bar>priceChangePercent\<bar> > 15 \<or> vol > 0.6)"

definition pauseTrades :: "real \<Rightarrow> real \<Rightarrow> nat \<Rightarrow> breaker_cache \<Rightarrow> breaker_cache" where
  \<comment> \<open>the body of \<open>if (circuitBreakerTriggered)\<close>\<close>
  "pauseTrades priceChangePercent vol now cache =
     cache\<lparr>circuit_breaker := Some
             \<lparr>triggered = True,
              breaker_reason =
                (if \<bar>priceChangePercent\<bar> > 15 then extreme_price_movement
                 else high_volatility),
              breaker_timestamp = now,
              details_priceChangePercent = priceChangePercent,
              details_volatility = vol\<rparr>,
           trading_paused := Some
             \<lparr>paused = True, paused_reason = ''Circuit breaker triggered'',
              paused_timestamp = now, expiryTime = now + 3600000\<rparr>\<rparr>"

definition decideCircuitBreaker :: "real \<Rightarrow> real \<Rightarrow> nat \<Rightarrow> breaker_cache \<Rightarrow> breaker_cache" where
  \<comment> \<open>the check from the two measurements on\<close>
  "decideCircuitBreaker priceChangePercent vol now cache =
     (if circuitBreakerTriggered priceChangePercent vol
      then pauseTrades priceChangePercent vol now cache
      else cache)"

definition checkCircuitBreaker :: "market_data \<Rightarrow> nat \<Rightarrow> breaker_cache \<Rightarrow> breaker_cache" where
  \<comment> \<open>\<open>solData\<close> is what \<open>getTokenMarketData\<close> returned for the reference asset; the two
      measurements are finite for a history without a zero price\<close>
  "checkCircuitBreaker solData now cache =
     (if length (priceHistory solData) < 24 then cache
      else
        let currentPrice = price solData;
            priorPrice = priceHistory solData ! 6;
            priceChangePercent = ((currentPrice - priorPrice) / priorPrice) * 100;
            vol = calculateVolatility (priceHistory solData)
        in decideCircuitBreaker priceChangePercent vol now cache)"

section \<open>Pending sells\<close>

type_synonym pending_sells = "string \<rightharpoonup> int"

record sell_message =
  message_token :: string
  message_amount :: "int option"  \<comment> \<open>\<open>BigInt(signal.amount)\<close>; \<open>None\<close>: the conversion throws\<close>

record sell_result =
  success :: bool
  signature :: "string option"
  error :: "string option"
  receivedAmount :: "string option"
  receivedValue :: "string option"

text \<open>What the collaborators do during one sell: the quote throws, there is no wallet,
  the sell throws, or the sell returns a result.\<close>

datatype sell_run = QuoteThrows string | NoWallet | SellThrows string | SellReturns sell_result

definition pendingOrZero :: "pending_sells \<Rightarrow> string \<Rightarrow> int" where
  \<comment> \<open>\<open>this.pendingSells[tokenAddress] || BigInt(0)\<close>\<close>
  "pendingOrZero pending tokenAddress =
     (case pending tokenAddress of None \<Rightarrow> 0 | Some v \<Rightarrow> if v \<noteq> 0 then v else 0)"

definition recordPendingSell :: "string \<Rightarrow> int \<Rightarrow> pending_sells \<Rightarrow> pending_sells" where
  "recordPendingSell tokenAddress sellAmount pending =
     pending(tokenAddress \<mapsto> pendingOrZero pending tokenAddress + sellAmount)"

definition releasePendingSell :: "string \<Rightarrow> int \<Rightarrow> pending_sells \<Rightarrow> pending_sells" where
  \<comment> \<open>the \<open>finally\<close> block\<close>
  "releasePendingSell tokenAddress sellAmount pending =
     (let remaining = pendingOrZero pending tokenAddress - sellAmount
      in if remaining \<le> 0 then pending(tokenAddress := None)
         else pending(tokenAddress \<mapsto> remaining))"

definition failed :: "string option \<Rightarrow> sell_result" where
  "failed e = \<lparr>success = False, signature = None, error = e,
              receivedAmount = None, receivedValue = None\<rparr>"

definition sellOutcome :: "sell_run \<Rightarrow> sell_result" where
  \<comment> \<open>what the inner \<open>try\<close> block returns, or the outer \<open>catch\<close> for what it throws\<close>
  "sellOutcome run =
     (case run of
        QuoteThrows m \<Rightarrow> failed (Some m)
      | NoWallet \<Rightarrow> failed (Some ''No wallet available'')
      | SellThrows m \<Rightarrow> failed (Some m)
      | SellReturns r \<Rightarrow>
          if success r \<and> (case signature r of None \<Rightarrow> False | Some sg \<Rightarrow> sg \<noteq> [])
          then \<lparr>success = True, signature = signature r, error = None,
                receivedAmount = receivedAmount r, receivedValue = receivedValue r\<rparr>
          else failed (error r))"

definition handleSellSignal ::
  "sell_message \<Rightarrow> sell_run \<Rightarrow> pending_sells \<Rightarrow> sell_result \<times> pending_sells" where
  "handleSellSignal msg run pending =
     (case message_amount msg of
        None \<Rightarrow> (failed (Some ''Cannot convert to a BigInt''), pending)
      | Some sellAmount \<Rightarrow>
          let pending = recordPendingSell (message_token msg) sellAmount pending;
              result = sellOutcome run
          in (result, releasePendingSell (message_token msg) sellAmount pending))"

text \<open>Invocations overlap: each \<open>await\<close> between the increment and the \<open>finally\<close> block
  lets other invocations run, while the increment and the \<open>finally\<close> block themselves are
  not interrupted. A schedule is the order in which the increments (\<open>Begin\<close>) and the
  \<open>finally\<close> blocks (\<open>Finish\<close>) of the invocations run; the second component of the state
  lists the invocations between the two.\<close>

datatype sell_event = Begin string int | Finish string int

fun sellStep ::
  "sell_event \<Rightarrow> pending_sells \<times> (string \<times> int) list \<Rightarrow> (pending_sells \<times> (string \<times> int) list) option"
  where
  "sellStep (Begin t a) (pending, inflight) =
     Some (recordPendingSell t a pending, (t, a) # inflight)"
| "sellStep (Finish t a) (pending, inflight) =
     (if (t, a) \<in> set inflight
      then Some (releasePendingSell t a pending, remove1 (t, a) inflight)
      else None)"

fun runSchedule ::
  "sell_event list \<Rightarrow> pending_sells \<times> (string \<times> int) list \<Rightarrow> (pending_sells \<times> (string \<times> int) list) option"
  where
  "runSchedule [] s = Some s"
| "runSchedule (e # es) s = (case sellStep e s of None \<Rightarrow> None | Some s' \<Rightarrow> runSchedule es s')"

fun eventAmount :: "sell_event \<Rightarrow> int" where
  "eventAmount (Begin t a) = a"
| "eventAmount (Finish t a) = a"

definition inflightOn :: "string \<Rightarrow> (string \<times> int) list \<Rightarrow> int" where
  \<comment> \<open>the volume of the invocations in flight on a token\<close>
  "inflightOn t inflight = sum_list (map snd (filter (\<lambda>e. fst e = t) inflight))"

definition positiveEntries :: "pending_sells \<Rightarrow> bool" where
  \<comment> \<open>what the \<open>finally\<close> block leaves: no entry at or below zero\<close>
  "positiveEntries pending = (\<forall>v \<in> ran pending. 0 < v)"

text \<open>The invariant of a schedule started in \<open>pending0\<close> with nothing in flight: each
  counter is its starting value plus the volume in flight on the token, a token with
  nothing in flight has its starting entry, and no amount in flight is negative.\<close>

definition scheduleInv :: "pending_sells \<Rightarrow> pending_sells \<times> (string \<times> int) list \<Rightarrow> bool" where
  "scheduleInv pending0 s =
     ((\<forall>t. pendingOrZero (fst s) t = pendingOrZero pending0 t + inflightOn t (snd s))
      \<and> (\<forall>t. (\<forall>e \<in> set (snd s). fst e \<noteq> t) \<longrightarrow> fst s t = pending0 t)
      \<and> (\<forall>e \<in> set (snd s). 0 \<le> snd e))"

section \<open>The examples of the specification\<close>

definition exampleLimits :: risk_limits where
  "exampleLimits =
     \<lparr>maxPositionSize = 0.2, maxDrawdown = 0.1, stopLossPercentage = 5,
      takeProfitPercentage = 20\<rparr>"

definition defaultSlippage :: slippage_settings where
  \<comment> \<open>the settings the service starts with\<close>
  "defaultSlippage =
     \<lparr>baseSlippage = 0.5, maxSlippage = 1, liquidityMultiplier = 1, volumeMultiplier = 1\<rparr>"

definition liveTrade :: trade_performance where
  \<comment> \<open>a cached performance record of a trade that is not a simulation\<close>
  "liveTrade = \<lparr>perf_isSimulation = False\<rparr>"

definition entryAt100 :: monitor_options where
  "entryAt100 = \<lparr>initialPrice = Some 100, stopLossPrice = None, takeProfitPrice = None\<rparr>"

definition tickAt :: "real \<Rightarrow> market_data" where
  \<comment> \<open>market data with the given price and no history\<close>
  "tickAt p =
     \<lparr>price = p, marketCap = 0, liquidity = 0, volume24h = 0,
      priceHistory = [], volumeHistory = []\<rparr>"

definition idle :: monitor_state where
  "idle = \<lparr>sellSignals = [], trailingStops = Map.empty, trailingStopTasks = []\<rparr>"

definition stopAt121 :: trailing_stop where
  "stopAt121 =
     \<lparr>stop_token = ''TOKEN'', highestPrice = 121, activationPrice = 121,
      trailingStopPercentage = 5, stop_amount = 500, createdAt = 0\<rparr>"

definition trailing121 :: monitor_state where
  "trailing121 =
     \<lparr>sellSignals = [], trailingStops = [''TOKEN'' \<mapsto> stopAt121],
      trailingStopTasks = [''TOKEN'']\<rparr>"

definition steadyMarket :: "real \<Rightarrow> market_data" where
  \<comment> \<open>a reference asset whose 24 samples are all 100, at the given current price\<close>
  "steadyMarket p =
     \<lparr>price = p, marketCap = 0, liquidity = 0, volume24h = 0,
      priceHistory = replicate 24 100, volumeHistory = replicate 24 0\<rparr>"

definition swings :: "real list" where
  \<comment> \<open>24 samples that alternate between 100 and 300\<close>
  "swings = [100, 300, 100, 300, 100, 300, 100, 300, 100, 300, 100, 300,
             100, 300, 100, 300, 100, 300, 100, 300, 100, 300, 100, 300]"

definition swingingMarket :: "real \<Rightarrow> market_data" where
  "swingingMarket p =
     \<lparr>price = p, marketCap = 0, liquidity = 0, volume24h = 0,
      priceHistory = swings, volumeHistory = replicate 24 0\<rparr>"

definition calm :: breaker_cache where
  "calm = \<lparr>circuit_breaker = None, trading_paused = None\<rparr>"

section \<open>The moving average in the words of the specification\<close>

text \<open>Below \<open>period\<close> samples the simple average of the samples there are; from \<open>period\<close>
  samples on the recurrence \<open>E' = k * p + (1 - k) * E\<close> with \<open>k = 2 / (period + 1)\<close>,
  started from the simple average of the first \<open>period\<close> samples.\<close>

definition simpleAverage :: "real list \<Rightarrow> real" where
  "simpleAverage xs = sum_list xs / real (length xs)"

fun emaRecurrence :: "real \<Rightarrow> real \<Rightarrow> real list \<Rightarrow> real" where
  "emaRecurrence k e [] = e"
| "emaRecurrence k e (p # ps) = emaRecurrence k (k * p + (1 - k) * e) ps"

definition specEMA :: "real list \<Rightarrow> nat \<Rightarrow> real" where
  "specEMA series period =
     (if length series < period then simpleAverage series
      else emaRecurrence (2 / (real period + 1)) (simpleAverage (take period series))
             (drop period series))"

chapter \<open>The properties\<close>

section \<open>Auxiliary facts\<close>

subsection \<open>Moving average and relative strength\<close>

lemma foldl_add_sum_list: "foldl (+) (a::real) xs = a + sum_list xs"
  by (induction xs arbitrary: a) simp_all

lemma emaLoop_emaRecurrence: "emaLoop k e ps = emaRecurrence k e ps"
proof (induction ps arbitrary: e)
  case Nil
  show ?case by simp
next
  case (Cons p ps)
  have "(p - e) * k + e = k * p + (1 - k) * e" by (simp add: algebra_simps)
  with Cons show ?case by simp
qed

lemma rsiInit_no_loss:
  "\<forall>i \<in> set js. prices ! (i - 1) \<le> prices ! i \<Longrightarrow>
   snd (fold (rsiInitStep prices) js (g, l)) = l"
  by (induction js arbitrary: g l) (simp_all add: rsiInitStep_def Let_def)

lemma rsiSmooth_no_loss:
  "\<forall>i \<in> set js. prices ! (i - 1) \<le> prices ! i \<Longrightarrow>
   snd (fold (rsiSmoothStep prices period) js (g, 0)) = 0"
  by (induction js arbitrary: g) (simp_all add: rsiSmoothStep_def Let_def)

lemma rsiAverages_sorted:
  assumes "sorted prices" and "period < length prices"
  shows "snd (rsiAverages prices period) = 0"
proof -
  have a: "\<forall>i \<in> set [1..<Suc period]. prices ! (i - 1) \<le> prices ! i"
    using assms by (auto intro: sorted_nth_mono)
  have b: "\<forall>i \<in> set [Suc period..<length prices]. prices ! (i - 1) \<le> prices ! i"
    using assms by (auto intro: sorted_nth_mono)
  obtain g l where gl: "fold (rsiInitStep prices) [1..<Suc period] (0, 0) = (g, l)"
    by (cases "fold (rsiInitStep prices) [1..<Suc period] (0, 0)")
  have "l = 0" using rsiInit_no_loss [OF a, of 0 0] gl by simp
  then show ?thesis
    unfolding rsiAverages_def gl using rsiSmooth_no_loss [OF b] by simp
qed

lemma rsiInit_constant:
  "\<forall>i \<in> set js. prices ! (i - 1) = prices ! i \<Longrightarrow>
   fold (rsiInitStep prices) js (g, l) = (g, l)"
  by (induction js arbitrary: g l) (simp_all add: rsiInitStep_def Let_def)

lemma rsiSmooth_constant:
  "\<forall>i \<in> set js. prices ! (i - 1) = prices ! i \<Longrightarrow>
   fold (rsiSmoothStep prices period) js (0, 0) = (0, 0)"
  by (induction js) (simp_all add: rsiSmoothStep_def Let_def)

lemma rsiAverages_constant:
  "rsiAverages (replicate n c) period = (0, 0)" if "period < n"
proof -
  have a: "\<forall>i \<in> set [1..<Suc period]. replicate n c ! (i - 1) = replicate n c ! i"
    using that by auto
  have b: "\<forall>i \<in> set [Suc period..<length (replicate n c)].
             replicate n c ! (i - 1) = replicate n c ! i"
    using that by auto
  show ?thesis
    unfolding rsiAverages_def using rsiInit_constant [OF a] rsiSmooth_constant [OF b]
    by simp
qed

lemma calculateVolatility_constant:
  assumes "c \<noteq> 0"
  shows "calculateVolatility (replicate n c) = 0"
proof -
  define ps where "ps = replicate n c"
  have "map (\<lambda>i. (ps ! i - ps ! (i - 1)) / ps ! (i - 1)) [1..<length ps]
          = map (\<lambda>i. 0) [1..<length ps]"
    by (rule map_cong) (auto simp: ps_def)
  then have rs: "map (\<lambda>i. (ps ! i - ps ! (i - 1)) / ps ! (i - 1)) [1..<length ps]
                   = replicate (n - 1) 0"
    by (simp add: map_replicate_const ps_def)
  have f1: "foldl (+) 0 (replicate m (0::real)) = 0" for m by (induction m) simp_all
  have f2: "foldl (\<lambda>sum ret. sum + ret\<^sup>2) 0 (replicate m (0::real)) = 0" for m
    by (induction m) simp_all
  have "calculateVolatility ps = 0"
    unfolding calculateVolatility_def Let_def rs by (simp add: f1 f2)
  then show ?thesis by (simp add: ps_def)
qed

lemma volatility_steady: "calculateVolatility (priceHistory (steadyMarket p)) = 0"
  using calculateVolatility_constant [of 100 24] by (simp add: steadyMarket_def)

lemma swings_volatility: "calculateVolatility swings = sqrt (8448 / 4761)"
  by (simp add: calculateVolatility_def swings_def Let_def upt_rec_numeral
        power2_eq_square)

lemma swings_volatile: "0.6 < calculateVolatility swings"
  unfolding swings_volatility by (rule real_less_rsqrt) (simp add: power2_eq_square)

subsection \<open>Rounding to binary64\<close>

lemma binary64_at:
  assumes "2 powr (of_int e + 52) \<le> \<bar>x\<bar>" and "\<bar>x\<bar> < 2 powr (of_int e + 53)"
  shows "binary64 x = binary64At e x"
proof -
  have pos: "0 < \<bar>x\<bar>" using assms(1) by (smt (verit) powr_gt_zero)
  have "\<lfloor>log 2 \<bar>x\<bar>\<rfloor> = e + 52"
    using assms pos by (subst floor_log_eq_powr_iff) (simp_all add: add.commute add.left_commute)
  with pos show ?thesis by (simp add: binary64_def)
qed

lemma binary64_5_percent: "binary64 (5 / 100) = 7205759403792794 / 2 ^ 57"
proof -
  have "binary64 (5 / 100) = binary64At (- 57) (5 / 100)"
    by (rule binary64_at) (simp_all add: powr_neg_numeral)
  also have "\<dots> = 7205759403792794 / 2 ^ 57"
    by (simp add: binary64At_def powr_neg_numeral roundEven_def Let_def)
  finally show ?thesis .
qed

lemma binary64_95_percent: "fsub binary64 1 (fdiv binary64 5 100) = 8556839292003942 / 2 ^ 53"
proof -
  let ?x = "1 - 7205759403792794 / 2 ^ 57 :: real"
  have "binary64 ?x = binary64At (- 53) ?x"
    by (rule binary64_at) (simp_all add: powr_neg_numeral)
  also have "\<dots> = 8556839292003942 / 2 ^ 53"
    by (simp add: binary64At_def powr_neg_numeral roundEven_def Let_def)
  finally show ?thesis unfolding fsub_def fdiv_def binary64_5_percent .
qed

lemma thresholdBelow_121_5: "thresholdBelow binary64 121 5 = 8088887143222476 / 2 ^ 46"
proof -
  let ?x = "121 * (8556839292003942 / 2 ^ 53) :: real"
  have "binary64 ?x = binary64At (- 46) ?x"
    by (rule binary64_at) (simp_all add: powr_neg_numeral)
  also have "\<dots> = 8088887143222476 / 2 ^ 46"
    by (simp add: binary64At_def powr_neg_numeral roundEven_def Let_def)
  finally show ?thesis unfolding thresholdBelow_def fmul_def binary64_95_percent .
qed

lemma thresholdBelow_100_5: "thresholdBelow binary64 100 5 = 95"
proof -
  let ?x = "100 * (8556839292003942 / 2 ^ 53) :: real"
  have "binary64 ?x = binary64At (- 46) ?x"
    by (rule binary64_at) (simp_all add: powr_neg_numeral)
  also have "\<dots> = 95"
    by (simp add: binary64At_def powr_neg_numeral roundEven_def Let_def)
  finally show ?thesis unfolding thresholdBelow_def fmul_def binary64_95_percent .
qed

lemma binary64_114_95: "binary64 (11495 / 100) = 8088887143222477 / 2 ^ 46"
proof -
  have "binary64 (11495 / 100) = binary64At (- 46) (11495 / 100)"
    by (rule binary64_at) (simp_all add: powr_neg_numeral)
  also have "\<dots> = 8088887143222477 / 2 ^ 46"
    by (simp add: binary64At_def powr_neg_numeral roundEven_def Let_def)
  finally show ?thesis .
qed

lemma binary64_20_percent: "binary64 (20 / 100) = 7205759403792794 / 2 ^ 55"
proof -
  have "binary64 (20 / 100) = binary64At (- 55) (20 / 100)"
    by (rule binary64_at) (simp_all add: powr_neg_numeral)
  also have "\<dots> = 7205759403792794 / 2 ^ 55"
    by (simp add: binary64At_def powr_neg_numeral roundEven_def Let_def)
  finally show ?thesis .
qed

lemma binary64_120_percent: "fadd binary64 1 (fdiv binary64 20 100) = 5404319552844595 / 2 ^ 52"
proof -
  let ?x = "1 + 7205759403792794 / 2 ^ 55 :: real"
  have "binary64 ?x = binary64At (- 52) ?x"
    by (rule binary64_at) (simp_all add: powr_neg_numeral)
  also have "\<dots> = 5404319552844595 / 2 ^ 52"
    by (simp add: binary64At_def powr_neg_numeral roundEven_def Let_def)
  finally show ?thesis unfolding fadd_def fdiv_def binary64_20_percent .
qed

lemma thresholdAbove_100_20: "thresholdAbove binary64 100 20 = 120"
proof -
  let ?x = "100 * (5404319552844595 / 2 ^ 52) :: real"
  have "binary64 ?x = binary64At (- 46) ?x"
    by (rule binary64_at) (simp_all add: powr_neg_numeral)
  also have "\<dots> = 120"
    by (simp add: binary64At_def powr_neg_numeral roundEven_def Let_def)
  finally show ?thesis unfolding thresholdAbove_def fmul_def binary64_120_percent .
qed

lemma binary64_114_95_normal: "binary64 (2299 / 20) = 8088887143222477 / 2 ^ 46"
  using binary64_114_95 by simp

lemma thresholdBelow_exact: "thresholdBelow exact b p = b * (1 - p / 100)"
  by (simp add: thresholdBelow_def fmul_def fsub_def fdiv_def exact_def)

subsection \<open>Pending sells\<close>

lemma pendingOrZero_eq: "pendingOrZero p t = (case p t of None \<Rightarrow> 0 | Some v \<Rightarrow> v)"
  by (simp add: pendingOrZero_def split: option.splits)

lemma positiveEntries_lookup:
  "positiveEntries p \<Longrightarrow> p t = Some v \<Longrightarrow> 0 < v"
  by (auto simp: positiveEntries_def ran_def)

lemma release_record:
  assumes "positiveEntries p"
  shows "releasePendingSell t a (recordPendingSell t a p) = p"
proof (cases "p t")
  case None
  then show ?thesis
    by (simp add: releasePendingSell_def recordPendingSell_def pendingOrZero_eq Let_def
          fun_upd_idem)
next
  case (Some v)
  with assms have "0 < v" by (rule positiveEntries_lookup)
  with Some show ?thesis
    by (auto simp: releasePendingSell_def recordPendingSell_def pendingOrZero_eq Let_def)
qed

lemma handleSellSignal_restores:
  assumes "positiveEntries p"
  shows "snd (handleSellSignal msg run p) = p"
  using release_record [OF assms]
  by (simp add: handleSellSignal_def Let_def split: option.splits)

lemma inflightOn_Cons:
  "inflightOn t ((t', a) # infl) = (if t' = t then a else 0) + inflightOn t infl"
  by (simp add: inflightOn_def)

lemma inflightOn_remove1:
  "(t', a) \<in> set infl \<Longrightarrow>
   inflightOn t infl = (if t' = t then a else 0) + inflightOn t (remove1 (t', a) infl)"
  by (induction infl) (auto simp: inflightOn_def)

lemma inflightOn_nonneg:
  "\<forall>e \<in> set infl. 0 \<le> snd e \<Longrightarrow> 0 \<le> inflightOn t infl"
  unfolding inflightOn_def by (rule sum_list_nonneg) auto

lemma inflightOn_none:
  "\<forall>e \<in> set infl. fst e \<noteq> t \<Longrightarrow> inflightOn t infl = 0"
  by (induction infl) (auto simp: inflightOn_def)

lemma pendingOrZero_nonneg: "positiveEntries p \<Longrightarrow> 0 \<le> pendingOrZero p t"
  by (cases "p t") (auto simp: pendingOrZero_eq dest: positiveEntries_lookup)

lemma sellStep_inv:
  assumes pos: "positiveEntries p0" and inv: "scheduleInv p0 s"
    and amt: "0 \<le> eventAmount e" and step: "sellStep e s = Some s'"
  shows "scheduleInv p0 s'"
proof (cases e)
  case (Begin t a)
  obtain p infl where s: "s = (p, infl)" by (cases s)
  from step Begin s have s': "s' = (recordPendingSell t a p, (t, a) # infl)" by simp
  show ?thesis
    using inv amt Begin
    unfolding s s' scheduleInv_def
    by (auto simp: recordPendingSell_def pendingOrZero_eq inflightOn_Cons)
next
  case (Finish t a)
  obtain p infl where s: "s = (p, infl)" by (cases s)
  from step Finish s have mem: "(t, a) \<in> set infl"
    and s': "s' = (releasePendingSell t a p, remove1 (t, a) infl)"
    by (auto split: if_splits)
  let ?infl' = "remove1 (t, a) infl"
  from inv s have i1: "\<And>u. pendingOrZero p u = pendingOrZero p0 u + inflightOn u infl"
    and i2: "\<And>u. (\<forall>e \<in> set infl. fst e \<noteq> u) \<Longrightarrow> p u = p0 u"
    and i3: "\<forall>e \<in> set infl. 0 \<le> snd e"
    by (auto simp: scheduleInv_def)
  have i3': "\<forall>e \<in> set ?infl'. 0 \<le> snd e"
    using i3 by (meson notin_set_remove1)
  have rem: "pendingOrZero p t - a = pendingOrZero p0 t + inflightOn t ?infl'"
    using i1 [of t] inflightOn_remove1 [OF mem, of t] by simp
  have other: "inflightOn u infl = inflightOn u ?infl'" if "u \<noteq> t" for u
    using inflightOn_remove1 [OF mem, of u] that by simp
  have nn0: "0 \<le> pendingOrZero p0 t" using pos by (rule pendingOrZero_nonneg)
  have nn1: "0 \<le> inflightOn t ?infl'" using i3' by (rule inflightOn_nonneg)
  have c1: "pendingOrZero (releasePendingSell t a p) u
              = pendingOrZero p0 u + inflightOn u ?infl'" for u
  proof (cases "u = t")
    case True
    show ?thesis
      using rem nn0 nn1 unfolding True
      by (auto simp: releasePendingSell_def Let_def pendingOrZero_eq)
  next
    case False
    then show ?thesis
      using i1 [of u] other [of u]
      by (simp add: releasePendingSell_def Let_def pendingOrZero_eq)
  qed
  have c2: "releasePendingSell t a p u = p0 u" if none: "\<forall>e \<in> set ?infl'. fst e \<noteq> u" for u
  proof (cases "u = t")
    case True
    have "inflightOn t ?infl' = 0" using none True inflightOn_none by blast
    with rem have r: "pendingOrZero p t - a = pendingOrZero p0 t" by simp
    show ?thesis
    proof (cases "p0 t")
      case None
      then show ?thesis
        using r unfolding True
        by (simp add: releasePendingSell_def Let_def pendingOrZero_eq)
    next
      case (Some v)
      with pos have "0 < v" by (rule positiveEntries_lookup)
      with Some r show ?thesis
        unfolding True
        by (simp add: releasePendingSell_def Let_def pendingOrZero_eq)
    qed
  next
    case False
    have "\<forall>e \<in> set infl. fst e \<noteq> u"
    proof
      fix e assume e: "e \<in> set infl"
      show "fst e \<noteq> u"
      proof (cases "e = (t, a)")
        case True
        with False show ?thesis by auto
      next
        case False
        with e have "e \<in> set ?infl'" by simp
        with none show ?thesis by blast
      qed
    qed
    then have "p u = p0 u" by (rule i2)
    with False show ?thesis by (simp add: releasePendingSell_def Let_def)
  qed
  show ?thesis
    unfolding s' scheduleInv_def using c1 c2 i3' by simp
qed

lemma runSchedule_inv:
  assumes "positiveEntries p0"
  shows "scheduleInv p0 s \<Longrightarrow> list_all (\<lambda>e. 0 \<le> eventAmount e) es \<Longrightarrow>
         runSchedule es s = Some s' \<Longrightarrow> scheduleInv p0 s'"
proof (induction es arbitrary: s)
  case Nil
  then show ?case by simp
next
  case (Cons e es)
  from Cons.prems(3) obtain s1 where s1: "sellStep e s = Some s1"
    and rest: "runSchedule es s1 = Some s'"
    by (auto split: option.splits)
  have "scheduleInv p0 s1"
    using assms Cons.prems(1) _ s1 by (rule sellStep_inv) (use Cons.prems(2) in simp)
  then show ?case using Cons.IH rest Cons.prems(2) by simp
qed

lemma scheduleInv_start: "scheduleInv p0 (p0, [])"
  by (simp add: scheduleInv_def inflightOn_def)

subsection \<open>Rounding to binary64 keeps the order\<close>

lemma roundEven_near: "\<bar>of_int (roundEven x) - x\<bar> \<le> 1 / 2"
proof -
  have "of_int \<lfloor>x\<rfloor> \<le> x" and "x < of_int \<lfloor>x\<rfloor> + 1" by linarith+
  then show ?thesis
    by (auto simp: roundEven_def Let_def)
qed

lemma roundEven_mono:
  assumes "x \<le> y"
  shows "roundEven x \<le> roundEven y"
proof (rule ccontr)
  assume "\<not> roundEven x \<le> roundEven y"
  then have "roundEven y + 1 \<le> roundEven x" by simp
  then have gap: "of_int (roundEven y) + (1::real) \<le> of_int (roundEven x)"
    by (metis of_int_1 of_int_add of_int_le_iff)
  have "of_int (roundEven x) - 1 / 2 \<le> x" using roundEven_near [of x] by linarith
  moreover have "y \<le> of_int (roundEven y) + 1 / 2" using roundEven_near [of y] by linarith
  ultimately have "y \<le> x" using gap by linarith
  with assms have "x = y" by simp
  with \<open>\<not> roundEven x \<le> roundEven y\<close> show False by simp
qed

lemma roundEven_of_int: "roundEven (of_int n) = n"
  by (simp add: roundEven_def Let_def)

lemma binade:
  assumes "0 < x"
  shows "2 powr of_int \<lfloor>log 2 x\<rfloor> \<le> x" and "x < 2 powr (of_int \<lfloor>log 2 x\<rfloor> + 1)"
  using floor_log_eq_powr_iff [of x 2 "\<lfloor>log 2 x\<rfloor>"] assms by simp_all

lemma binary64_range:
  assumes "0 < x"
  shows "2 powr of_int \<lfloor>log 2 x\<rfloor> \<le> binary64 x"
    and "binary64 x \<le> 2 powr (of_int \<lfloor>log 2 x\<rfloor> + 1)"
proof -
  let ?E = "\<lfloor>log 2 x\<rfloor>"
  let ?c = "2 powr of_int (?E - 52) :: real"
  have c: "0 < ?c" by simp
  have cE: "?c * 2 ^ 52 = 2 powr of_int ?E"
    by (simp add: powr_diff)
  have cE1: "?c * 2 ^ 53 = 2 powr (of_int ?E + 1)"
    by (simp add: powr_diff powr_add)
  have lo: "2 ^ 52 \<le> x / ?c"
    using binade(1) [OF assms] cE c by (simp add: pos_le_divide_eq mult.commute)
  have hi: "x / ?c \<le> 2 ^ 53"
    using binade(2) [OF assms] cE1 c by (simp add: pos_divide_le_eq mult.commute)
  have "roundEven (of_int (2 ^ 52)) \<le> roundEven (x / ?c)"
    by (rule roundEven_mono) (use lo in simp)
  then have rlo: "(2 ^ 52 :: real) \<le> of_int (roundEven (x / ?c))"
    unfolding roundEven_of_int by (metis of_int_le_iff of_int_numeral of_int_power)
  have "roundEven (x / ?c) \<le> roundEven (of_int (2 ^ 53))"
    by (rule roundEven_mono) (use hi in simp)
  then have rhi: "of_int (roundEven (x / ?c)) \<le> (2 ^ 53 :: real)"
    unfolding roundEven_of_int by (metis of_int_le_iff of_int_numeral of_int_power)
  have b: "binary64 x = of_int (roundEven (x / ?c)) * ?c"
    using assms by (simp add: binary64_def binary64At_def)
  show "2 powr of_int ?E \<le> binary64 x"
    unfolding b cE [symmetric] using rlo c by (simp add: mult.commute)
  show "binary64 x \<le> 2 powr (of_int ?E + 1)"
    unfolding b cE1 [symmetric] using rhi c by (simp add: mult.commute)
qed

lemma binary64_positive: "0 < x \<Longrightarrow> 0 < binary64 x"
  using binary64_range(1) [of x] by (smt (verit) powr_gt_zero)

lemma binary64_mono_pos:
  assumes "0 < x" and "x \<le> y"
  shows "binary64 x \<le> binary64 y"
proof -
  have y: "0 < y" using assms by simp
  have E: "\<lfloor>log 2 x\<rfloor> \<le> \<lfloor>log 2 y\<rfloor>"
    using assms y by (intro floor_mono) simp
  show ?thesis
  proof (cases "\<lfloor>log 2 x\<rfloor> = \<lfloor>log 2 y\<rfloor>")
    case True
    let ?c = "2 powr of_int (\<lfloor>log 2 y\<rfloor> - 52) :: real"
    have "roundEven (x / ?c) \<le> roundEven (y / ?c)"
      by (rule roundEven_mono) (use assms in \<open>simp add: divide_right_mono\<close>)
    then have "of_int (roundEven (x / ?c)) * ?c \<le> of_int (roundEven (y / ?c)) * ?c"
      by (simp add: mult_right_mono)
    then show ?thesis
      using assms y True by (simp add: binary64_def binary64At_def)
  next
    case False
    with E have "\<lfloor>log 2 x\<rfloor> + 1 \<le> \<lfloor>log 2 y\<rfloor>" by simp
    then have "(of_int \<lfloor>log 2 x\<rfloor> + 1 :: real) \<le> of_int \<lfloor>log 2 y\<rfloor>"
      by (metis of_int_1 of_int_add of_int_le_iff)
    then have "2 powr (of_int \<lfloor>log 2 x\<rfloor> + 1) \<le> (2 powr of_int \<lfloor>log 2 y\<rfloor> :: real)"
      by (simp add: powr_mono)
    with binary64_range(2) [OF assms(1)] binary64_range(1) [OF y] show ?thesis by linarith
  qed
qed

lemma binary64_mono_nonneg:
  assumes "0 \<le> x" and "x \<le> y"
  shows "binary64 x \<le> binary64 y"
proof (cases "x = 0")
  case True
  show ?thesis
  proof (cases "y = 0")
    case True
    with \<open>x = 0\<close> show ?thesis by simp
  next
    case False
    with assms True have "0 < y" by simp
    then have "0 < binary64 y" by (rule binary64_positive)
    with True show ?thesis by (simp add: binary64_def)
  qed
next
  case False
  with assms have "0 < x" by simp
  then show ?thesis using assms(2) by (rule binary64_mono_pos)
qed

lemma roundsMonotone_binary64: "roundsMonotone binary64"
  unfolding roundsMonotone_def
proof (intro conjI allI impI)
  fix x y :: real
  assume "0 \<le> x \<and> x \<le> y"
  then show "binary64 x \<le> binary64 y" using binary64_mono_nonneg by blast
next
  show "binary64 0 = 0" by (simp add: binary64_def)
next
  fix x :: real
  assume "0 < x"
  then show "0 < binary64 x" by (rule binary64_positive)
qed

lemma roundsMonotone_exact: "roundsMonotone exact"
  by (simp add: roundsMonotone_def exact_def)

lemma rnd_mono:
  assumes "roundsMonotone rnd" and "0 \<le> x" and "x \<le> y"
  shows "rnd x \<le> rnd y"
proof -
  from assms(1) have "\<forall>x y. 0 \<le> x \<and> x \<le> y \<longrightarrow> rnd x \<le> rnd y"
    unfolding roundsMonotone_def by (rule conjunct1)
  with assms(2,3) show ?thesis by blast
qed

lemma rnd_zero:
  assumes "roundsMonotone rnd"
  shows "rnd 0 = 0"
  using assms unfolding roundsMonotone_def by blast

lemma rnd_positive:
  assumes "roundsMonotone rnd" and "0 < x"
  shows "0 < rnd x"
proof -
  from assms(1) have "\<forall>x. 0 < x \<longrightarrow> 0 < rnd x"
    unfolding roundsMonotone_def by blast
  with assms(2) show ?thesis by blast
qed

lemma rnd_at_least:
  assumes "roundsMonotone rnd" and "rnd lo = lo" and "0 \<le> lo" and "lo \<le> x"
  shows "lo \<le> rnd x"
proof -
  have "rnd lo \<le> rnd x" using assms(1,3,4) by (rule rnd_mono)
  with assms(2) show ?thesis by simp
qed

lemma rnd_nonneg:
  assumes "roundsMonotone rnd" and "0 \<le> x"
  shows "0 \<le> rnd x"
proof -
  have "rnd 0 \<le> rnd x" using assms(1) _ assms(2) by (rule rnd_mono) simp
  with rnd_zero [OF assms(1)] show ?thesis by simp
qed

subsection \<open>Numbers of the slippage examples in binary64\<close>

lemma binary64_trade_share: "binary64 (1 / 100000) = 5902958103587057 / 590295810358705651712"
proof -
  have "binary64 (1 / 100000) = binary64At (- 69) (1 / 100000)"
    by (rule binary64_at) (simp_all add: powr_neg_numeral)
  also have "\<dots> = 5902958103587057 / 590295810358705651712"
    by (simp add: binary64At_def powr_neg_numeral roundEven_def Let_def)
  finally show ?thesis .
qed

lemma binary64_trade_percent: "binary64 (147573952589676425 / 147573952589676412928) = 1152921504606847 / 1152921504606846976"
proof -
  have "binary64 (147573952589676425 / 147573952589676412928) = binary64At (- 62) (147573952589676425 / 147573952589676412928)"
    by (rule binary64_at) (simp_all add: powr_neg_numeral)
  also have "\<dots> = 1152921504606847 / 1152921504606846976"
    by (simp add: binary64At_def powr_neg_numeral roundEven_def Let_def)
  finally show ?thesis .
qed

lemma binary64_tenth: "binary64 (1 / 10) = 3602879701896397 / 36028797018963968"
proof -
  have "binary64 (1 / 10) = binary64At (- 56) (1 / 10)"
    by (rule binary64_at) (simp_all add: powr_neg_numeral)
  also have "\<dots> = 3602879701896397 / 36028797018963968"
    by (simp add: binary64At_def powr_neg_numeral roundEven_def Let_def)
  finally show ?thesis .
qed

lemma binary64_hundredth: "binary64 (1 / 100) = 5764607523034235 / 576460752303423488"
proof -
  have "binary64 (1 / 100) = binary64At (- 59) (1 / 100)"
    by (rule binary64_at) (simp_all add: powr_neg_numeral)
  also have "\<dots> = 5764607523034235 / 576460752303423488"
    by (simp add: binary64At_def powr_neg_numeral roundEven_def Let_def)
  finally show ?thesis .
qed

lemma binary64_twentieth: "binary64 (1 / 20) = 3602879701896397 / 72057594037927936"
proof -
  have "binary64 (1 / 20) = binary64At (- 57) (1 / 20)"
    by (rule binary64_at) (simp_all add: powr_neg_numeral)
  also have "\<dots> = 3602879701896397 / 72057594037927936"
    by (simp add: binary64At_def powr_neg_numeral roundEven_def Let_def)
  finally show ?thesis .
qed

lemma binary64_8_percent: "binary64 (2 / 25) = 5764607523034235 / 72057594037927936"
proof -
  have "binary64 (2 / 25) = binary64At (- 56) (2 / 25)"
    by (rule binary64_at) (simp_all add: powr_neg_numeral)
  also have "\<dots> = 5764607523034235 / 72057594037927936"
    by (simp add: binary64At_def powr_neg_numeral roundEven_def Let_def)
  finally show ?thesis .
qed

lemma binary64_half: "binary64 (1 / 2) = 1 / 2"
proof -
  have "binary64 (1 / 2) = binary64At (- 53) (1 / 2)"
    by (rule binary64_at) (simp_all add: powr_neg_numeral)
  also have "\<dots> = 1 / 2"
    by (simp add: binary64At_def powr_neg_numeral roundEven_def Let_def)
  finally show ?thesis .
qed

lemma binary64_quarter: "binary64 (1 / 4) = 1 / 4"
proof -
  have "binary64 (1 / 4) = binary64At (- 54) (1 / 4)"
    by (rule binary64_at) (simp_all add: powr_neg_numeral)
  also have "\<dots> = 1 / 4"
    by (simp add: binary64At_def powr_neg_numeral roundEven_def Let_def)
  finally show ?thesis .
qed

lemma binary64_58_percent: "binary64 (41793404541998203 / 72057594037927936) = 5224175567749775 / 9007199254740992"
proof -
  have "binary64 (41793404541998203 / 72057594037927936) = binary64At (- 53) (41793404541998203 / 72057594037927936)"
    by (rule binary64_at) (simp_all add: powr_neg_numeral)
  also have "\<dots> = 5224175567749775 / 9007199254740992"
    by (simp add: binary64At_def powr_neg_numeral roundEven_def Let_def)
  finally show ?thesis .
qed

lemma binary64_58: "binary64 (130604389193744375 / 2251799813685248) = 8162774324609023 / 140737488355328"
proof -
  have "binary64 (130604389193744375 / 2251799813685248) = binary64At (- 47) (130604389193744375 / 2251799813685248)"
    by (rule binary64_at) (simp_all add: powr_neg_numeral)
  also have "\<dots> = 8162774324609023 / 140737488355328"
    by (simp add: binary64At_def powr_neg_numeral roundEven_def Let_def)
  finally show ?thesis .
qed

lemma binary64_100: "binary64 (100) = 100"
proof -
  have "binary64 (100) = binary64At (- 46) (100)"
    by (rule binary64_at) (simp_all add: powr_neg_numeral)
  also have "\<dots> = 100"
    by (simp add: binary64At_def powr_neg_numeral roundEven_def Let_def)
  finally show ?thesis .
qed

lemma binary64_25: "binary64 (25) = 25"
proof -
  have "binary64 (25) = binary64At (- 48) (25)"
    by (rule binary64_at) (simp_all add: powr_neg_numeral)
  also have "\<dots> = 25"
    by (simp add: binary64At_def powr_neg_numeral roundEven_def Let_def)
  finally show ?thesis .
qed

subsection \<open>Slippage and drawdown\<close>

lemma liquidity_step:
  assumes m: "roundsMonotone rnd" and lo: "rnd lo = lo" "0 \<le> lo" "lo \<le> b"
    and lm: "0 < lm" and g: "jsGreater lp (rnd 0.1)"
  shows "jsAtLeast lo (jsAdd rnd (Fin b) (jsMul rnd (jsMul rnd (jsPow15 rnd lp) (Fin lm))
                                            (Fin (rnd 0.01))))"
proof (cases lp)
  case (Fin x)
  have t: "0 \<le> rnd 0.1" using m by (rule rnd_nonneg) simp
  with g Fin have x: "0 < x" by (simp add: jsGreater_def)
  have c: "0 \<le> rnd 0.01" using m by (rule rnd_nonneg) simp
  have p: "0 \<le> rnd (x powr 1.5)" using m by (rule rnd_nonneg) simp
  have f: "0 \<le> rnd (rnd (x powr 1.5) * lm)"
    using m by (rule rnd_nonneg) (use p lm in simp)
  have a: "0 \<le> rnd (rnd (rnd (x powr 1.5) * lm) * rnd 0.01)"
    using m by (rule rnd_nonneg) (use f c in simp)
  have "lo \<le> rnd (b + rnd (rnd (rnd (x powr 1.5) * lm) * rnd 0.01))"
    using m lo(1,2) by (rule rnd_at_least) (use a lo(3) in linarith)
  with Fin x show ?thesis by (simp add: jsPow15_def jsAtLeast_def)
next
  case PosInf
  have "0 < rnd 0.01" using m by (rule rnd_positive) simp
  with PosInf lm show ?thesis
    by (simp add: jsPow15_def infiniteTimes_def signedInfinity_def jsAtLeast_def)
next
  case NegInf
  with g show ?thesis by (simp add: jsGreater_def)
next
  case NaN
  with g show ?thesis by (simp add: jsGreater_def)
qed

lemma discount_finite:
  assumes "jsGreater v t"
  shows "\<exists>d. jsMul rnd (jsMin (jsMul rnd v (Fin 5)) 0.5) (Fin vm) = Fin d"
  using assms
  by (cases v) (simp_all add: jsGreater_def jsMin_def infiniteTimes_def signedInfinity_def)

lemma volume_step:
  assumes "jsAtLeast lo s1"
  shows "jsAtLeast lo (jsMax (jsSub rnd s1 (Fin d)) lo)"
  using assms by (cases s1) (simp_all add: jsAtLeast_def jsMax_def)

lemma special_step:
  assumes m: "roundsMonotone rnd" and lo: "rnd lo = lo" "0 \<le> lo"
    and s: "jsAtLeast lo s2" and a: "0 \<le> a"
  shows "jsAtLeast lo (jsAdd rnd s2 (Fin a))"
proof (cases s2)
  case (Fin x)
  with s have "lo \<le> x" by (simp add: jsAtLeast_def)
  then have "lo \<le> x + a" using a by simp
  with m lo have "lo \<le> rnd (x + a)" by (rule rnd_at_least)
  with Fin show ?thesis by (simp add: jsAtLeast_def)
qed (use s in \<open>simp_all add: jsAtLeast_def\<close>)

lemma slippageBeforeCap_at_least:
  assumes m: "roundsMonotone rnd"
    and half: "rnd (baseSlippage s * 0.5) = baseSlippage s * 0.5"
    and base: "0 \<le> baseSlippage s" and lm: "0 < liquidityMultiplier s"
    and sp: "\<forall>a. special = Some a \<longrightarrow> 0 \<le> a"
  shows "jsAtLeast (baseSlippage s * 0.5) (slippageBeforeCap rnd s lp v special)"
proof -
  let ?lo = "baseSlippage s * 0.5"
  have lo0: "0 \<le> ?lo" and lob: "?lo \<le> baseSlippage s" using base by simp_all
  define s1 where "s1 =
    (if jsGreater lp (rnd 0.1)
     then jsAdd rnd (Fin (baseSlippage s))
            (jsMul rnd (jsMul rnd (jsPow15 rnd lp) (Fin (liquidityMultiplier s)))
               (Fin (rnd 0.01)))
     else Fin (baseSlippage s))"
  define s2 where "s2 =
    (if jsGreater v (rnd 0.05)
     then jsMax (jsSub rnd s1
                   (jsMul rnd (jsMin (jsMul rnd v (Fin 5)) 0.5) (Fin (volumeMultiplier s))))
            (rnd (baseSlippage s * 0.5))
     else s1)"
  have a1: "jsAtLeast ?lo s1"
    unfolding s1_def
    using liquidity_step [OF m half lo0 lob lm] lob by (simp add: jsAtLeast_def)
  have a2: "jsAtLeast ?lo s2"
  proof (cases "jsGreater v (rnd 0.05)")
    case True
    then obtain d where
      d: "jsMul rnd (jsMin (jsMul rnd v (Fin 5)) 0.5) (Fin (volumeMultiplier s)) = Fin d"
      using discount_finite by blast
    show ?thesis
      unfolding s2_def d half using True volume_step [OF a1] by simp
  next
    case False
    with a1 show ?thesis by (simp add: s2_def)
  qed
  have e: "slippageBeforeCap rnd s lp v special =
             (case special of None \<Rightarrow> s2 | Some a \<Rightarrow> jsAdd rnd s2 (Fin a))"
    by (simp only: slippageBeforeCap_def s1_def s2_def Let_def)
  show ?thesis
  proof (cases special)
    case None
    with e a2 show ?thesis by simp
  next
    case (Some a)
    with sp have "0 \<le> a" by simp
    with e Some special_step [OF m half lo0 a2] show ?thesis by simp
  qed
qed

lemma finalSlippage_between:
  assumes "roundsMonotone rnd"
    and "rnd (baseSlippage s * 0.5) = baseSlippage s * 0.5"
    and "0 \<le> baseSlippage s" and "0 < liquidityMultiplier s"
    and "baseSlippage s * 0.5 \<le> maxSlippage s"
    and "\<forall>a. special = Some a \<longrightarrow> 0 \<le> a"
  shows "jsBetween (baseSlippage s * 0.5) (maxSlippage s) (finalSlippage rnd s lp v special)"
  using slippageBeforeCap_at_least [OF assms(1-4) assms(6), of lp v] assms(5)
  by (cases "slippageBeforeCap rnd s lp v special")
     (simp_all add: finalSlippage_def jsMin_def jsBetween_def jsAtLeast_def)

lemma getPortfolioStatus_keeps_mark:
  "snd (getPortfolioStatus walletBalance monitored cachedMark) = cachedMark"
  by (simp add: getPortfolioStatus_def Let_def split: prod.splits)

lemma getPortfolioStatus_without_mark:
  "drawdown (fst (getPortfolioStatus walletBalance monitored None)) = 0"
  by (simp add: getPortfolioStatus_def getHighWaterMark_def Let_def split: prod.splits)

lemma calculateDrawdown_clamped:
  assumes "0 < hwm"
  shows "calculateDrawdown (Some hwm) v =
           (Fin (max 0 ((hwm - v) / hwm)), Some (max hwm v))"
  using assms
  by (auto simp: calculateDrawdown_def jsOr_def truthy_def jsdiv_def Let_def max_def
        zero_le_divide_iff)

subsection \<open>The position monitor behind the performance lookup\<close>

lemma monitorToken_lookup_throws:
  assumes "currentBalance = Some balance" and "0 < balance" and "price marketData \<noteq> 0"
  shows "monitorToken rnd limits tokenAddress options currentBalance marketData
           None latestRecord now st = (MonitorError, st)"
  using assms
  by (simp add: monitorToken_def noPosition_def truthy_def getLatestTradePerformance_def
        Let_def)

lemma monitorToken_stop_loss_after_lookup:
  assumes "currentBalance = Some balance" and "0 < balance"
    and "initialPrice options = Some entry" and "entry \<noteq> 0"
    and "stopLossPrice options = None
         \<or> stopLossPrice options
             = Some (rnd (entry * rnd (1 - rnd (stopLossPercentage limits / 100))))"
    and "0 < price marketData"
    and "cachedPerformance = Some performance"
    and "price marketData \<le> rnd (entry * rnd (1 - rnd (stopLossPercentage limits / 100)))"
  shows "monitorToken rnd limits tokenAddress options currentBalance marketData
           cachedPerformance latestRecord now st =
           (StopLossExit,
            st\<lparr>sellSignals := sellSignals st @
                 [\<lparr>sell_token = tokenAddress, sell_amount = balance,
                   sell_reason = ''Stop loss triggered''\<rparr>]\<rparr>)"
  using assms
  by (auto simp: monitorToken_def noPosition_def truthy_def jsOr_def fromInitialPrice_def
        reaches_def createSellSignal_def getLatestTradePerformance_def Let_def
        thresholdBelow_def fmul_def fsub_def fdiv_def)

lemma monitorToken_take_profit_after_lookup:
  assumes "currentBalance = Some balance" and "0 < balance"
    and "initialPrice options = Some entry" and "entry \<noteq> 0"
    and "stopLossPrice options = None
         \<or> stopLossPrice options
             = Some (rnd (entry * rnd (1 - rnd (stopLossPercentage limits / 100))))"
    and "takeProfitPrice options = None
         \<or> takeProfitPrice options
             = Some (rnd (entry * rnd (1 + rnd (takeProfitPercentage limits / 100))))"
    and "0 < price marketData"
    and "cachedPerformance = Some performance"
    and "\<not> price marketData \<le> rnd (entry * rnd (1 - rnd (stopLossPercentage limits / 100)))"
    and "0 < rnd (entry * rnd (1 + rnd (takeProfitPercentage limits / 100)))"
    and "price marketData \<ge> rnd (entry * rnd (1 + rnd (takeProfitPercentage limits / 100)))"
  shows "monitorToken rnd limits tokenAddress options currentBalance marketData
           cachedPerformance latestRecord now st =
           (TakeProfitPartial,
            st\<lparr>sellSignals := sellSignals st @
                 [\<lparr>sell_token = tokenAddress, sell_amount = balance div 2,
                   sell_reason = ''Take profit - selling half position''\<rparr>],
               trailingStops := (trailingStops st)(tokenAddress \<mapsto>
                 \<lparr>stop_token = tokenAddress, highestPrice = price marketData,
                  activationPrice = price marketData, trailingStopPercentage = 5,
                  stop_amount = balance div 2, createdAt = now\<rparr>),
               trailingStopTasks := trailingStopTasks st @ [tokenAddress]\<rparr>)"
  using assms
  by (auto simp: monitorToken_def noPosition_def truthy_def jsOr_def fromInitialPrice_def
        reaches_def createSellSignal_def setTrailingStop_def getLatestTradePerformance_def
        Let_def thresholdBelow_def thresholdAbove_def fmul_def fsub_def fadd_def fdiv_def)

section \<open>Position monitor\<close>

text \<open>
  Claim C1 at a failing input. Entry price 100, stop loss 5 percent, a balance of 1000 and
  a tick at price 94, in binary64 arithmetic, for a token whose performance entry
  \<open><token>:default\<close> is not in the cache: \<open>getLatestTradePerformance\<close> throws, the tick
  ends in the \<open>catch\<close> of \<open>monitorToken\<close> and emits no sell. With the entry in the cache the
  same tick emits the one sell of the whole balance with the reason
  \<open>Stop loss triggered\<close> and changes nothing else.
\<close>

theorem monitorToken_stop_loss_lookup_throws:
  "monitorToken binary64 exampleLimits ''TOKEN'' entryAt100 (Some 1000) (tickAt 94)
       None None 0 idle = (MonitorError, idle)
   \<and> sellSignals (snd (monitorToken binary64 exampleLimits ''TOKEN'' entryAt100 (Some 1000)
                         (tickAt 94) None None 0 idle)) = []
   \<and> monitorToken binary64 exampleLimits ''TOKEN'' entryAt100 (Some 1000) (tickAt 94)
       (Some liveTrade) None 0 idle =
       (StopLossExit,
        idle\<lparr>sellSignals :=
               [\<lparr>sell_token = ''TOKEN'', sell_amount = 1000,
                 sell_reason = ''Stop loss triggered''\<rparr>]\<rparr>)"
  by (simp add: monitorToken_def noPosition_def truthy_def jsOr_def fromInitialPrice_def
        reaches_def createSellSignal_def getLatestTradePerformance_def Let_def
        exampleLimits_def entryAt100_def tickAt_def idle_def liveTrade_def
        thresholdBelow_100_5)

text \<open>
  Claim C2 at a failing input. Entry price 100, take profit 20 percent, a balance of 1000
  and a tick at price 121, for a token whose performance entry is not in the cache: the
  tick ends in the \<open>catch\<close>, emits no sell and stores no trailing stop. With the entry in
  the cache the same tick sells 500 with the reason \<open>Take profit - selling half position\<close>
  and stores the trailing stop for 500 at 121 with 5 percent.
\<close>

theorem monitorToken_take_profit_lookup_throws:
  "monitorToken binary64 exampleLimits ''TOKEN'' entryAt100 (Some 1000) (tickAt 121)
       None None 0 idle = (MonitorError, idle)
   \<and> sellSignals (snd (monitorToken binary64 exampleLimits ''TOKEN'' entryAt100 (Some 1000)
                         (tickAt 121) None None 0 idle)) = []
   \<and> trailingStops (snd (monitorToken binary64 exampleLimits ''TOKEN'' entryAt100 (Some 1000)
                         (tickAt 121) None None 0 idle)) ''TOKEN'' = None
   \<and> monitorToken binary64 exampleLimits ''TOKEN'' entryAt100 (Some 1000) (tickAt 121)
       (Some liveTrade) None 0 idle =
       (TakeProfitPartial,
        trailing121\<lparr>sellSignals :=
               [\<lparr>sell_token = ''TOKEN'', sell_amount = 500,
                 sell_reason = ''Take profit - selling half position''\<rparr>]\<rparr>)"
  by (simp add: monitorToken_def noPosition_def truthy_def jsOr_def fromInitialPrice_def
        reaches_def createSellSignal_def setTrailingStop_def getLatestTradePerformance_def
        Let_def exampleLimits_def entryAt100_def tickAt_def idle_def trailing121_def
        stopAt121_def liveTrade_def thresholdBelow_100_5 thresholdAbove_100_20)

text \<open>
  Claim C3, as amended. On a tick of \<open>monitorTrailingStop\<close> for a token with a stored
  trailing-stop record, a positive balance and an available price: with \<open>highest\<close> the
  larger of the stored highest price and the current price, and \<open>stopPrice\<close> the product
  \<open>highest * (1 - trailingStopPercentage / 100)\<close> as the arithmetic in use computes it, the
  tick emits one sell signal for the tracked amount and deletes the record if the price
  is at or below \<open>stopPrice\<close>, and otherwise emits nothing and leaves the record with
  \<open>highest\<close> as its highest price.
\<close>

theorem monitorTrailingStop_tick:
  assumes "trailingStops st tokenAddress = Some ts"
    and "currentBalance = Some balance" and "0 < balance"
    and "price marketData \<noteq> 0"
  shows "monitorTrailingStop rnd tokenAddress currentBalance marketData st =
           (let highest = max (highestPrice ts) (price marketData);
                stopPrice = thresholdBelow rnd highest (trailingStopPercentage ts)
            in if price marketData \<le> stopPrice
               then st\<lparr>sellSignals := sellSignals st @
                         [\<lparr>sell_token = tokenAddress, sell_amount = stop_amount ts,
                           sell_reason = ''Trailing stop triggered''\<rparr>],
                       trailingStops := (trailingStops st)(tokenAddress := None)\<rparr>
               else st\<lparr>trailingStops := (trailingStops st)(tokenAddress \<mapsto>
                         ts\<lparr>highestPrice := highest\<rparr>)\<rparr>)"
proof -
  have triv: "st\<lparr>trailingStops := (trailingStops st)(tokenAddress \<mapsto> ts)\<rparr> = st"
    using assms(1) by (simp add: map_upd_triv)
  show ?thesis
  proof (cases "price marketData > highestPrice ts")
    case True
    then have "max (highestPrice ts) (price marketData) = price marketData" by simp
    with True assms show ?thesis
      by (simp add: monitorTrailingStop_def noPosition_def truthy_def createSellSignal_def
            Let_def)
  next
    case False
    then have "max (highestPrice ts) (price marketData) = highestPrice ts" by simp
    with False assms triv show ?thesis
      by (simp add: monitorTrailingStop_def noPosition_def truthy_def createSellSignal_def
            Let_def)
  qed
qed

text \<open>With the highest price 121 and 5 percent, binary64 arithmetic computes the stop
  price \<open>8088887143222476 / 2\<^sup>4\<^sup>6\<close>, which prints as 114.94999999999999: a tick at this
  price triggers the exit, ticks at 115 and at the number written 114.95 do not. In exact
  arithmetic the stop price is 114.95 and a tick there triggers the exit.\<close>

theorem monitorTrailingStop_tick_witness:
  "monitorTrailingStop binary64 ''TOKEN'' (Some 500) (tickAt (8088887143222476 / 2 ^ 46))
       trailing121 =
     trailing121\<lparr>sellSignals :=
                   [\<lparr>sell_token = ''TOKEN'', sell_amount = 500,
                     sell_reason = ''Trailing stop triggered''\<rparr>],
                 trailingStops := Map.empty\<rparr>
   \<and> monitorTrailingStop binary64 ''TOKEN'' (Some 500) (tickAt 115) trailing121 = trailing121
   \<and> monitorTrailingStop binary64 ''TOKEN'' (Some 500) (tickAt (binary64 (11495 / 100)))
         trailing121 = trailing121
   \<and> monitorTrailingStop exact ''TOKEN'' (Some 500) (tickAt (11495 / 100)) trailing121 =
     trailing121\<lparr>sellSignals :=
                   [\<lparr>sell_token = ''TOKEN'', sell_amount = 500,
                     sell_reason = ''Trailing stop triggered''\<rparr>],
                 trailingStops := Map.empty\<rparr>"
  using monitorTrailingStop_tick
    [where st = trailing121 and tokenAddress = "''TOKEN''" and ts = stopAt121
       and currentBalance = "Some 500" and balance = 500
       and marketData = "tickAt (8088887143222476 / 2 ^ 46)" and rnd = binary64]
    monitorTrailingStop_tick
    [where st = trailing121 and tokenAddress = "''TOKEN''" and ts = stopAt121
       and currentBalance = "Some 500" and balance = 500
       and marketData = "tickAt 115" and rnd = binary64]
    monitorTrailingStop_tick
    [where st = trailing121 and tokenAddress = "''TOKEN''" and ts = stopAt121
       and currentBalance = "Some 500" and balance = 500
       and marketData = "tickAt (binary64 (11495 / 100))" and rnd = binary64]
    monitorTrailingStop_tick
    [where st = trailing121 and tokenAddress = "''TOKEN''" and ts = stopAt121
       and currentBalance = "Some 500" and balance = 500
       and marketData = "tickAt (11495 / 100)" and rnd = exact]
  by (simp add: trailing121_def stopAt121_def tickAt_def Let_def binary64_114_95_normal
        thresholdBelow_121_5 thresholdBelow_exact)

text \<open>The example of claim C3 as the specification has it: the number written 114.95 is
  \<open>8088887143222477 / 2\<^sup>4\<^sup>6\<close>, one unit in the last place above the stop price that
  the runtime computes from 121 and 5, so the tick emits no sell and keeps the record.\<close>

theorem monitorTrailingStop_114_95_counterexample:
  "price (tickAt (binary64 (11495 / 100))) = 8088887143222477 / 2 ^ 46
   \<and> thresholdBelow binary64 (highestPrice stopAt121) (trailingStopPercentage stopAt121)
       = 8088887143222476 / 2 ^ 46
   \<and> monitorTrailingStop binary64 ''TOKEN'' (Some 500) (tickAt (binary64 (11495 / 100)))
         trailing121 = trailing121
   \<and> sellSignals trailing121 = []
   \<and> trailingStops trailing121 ''TOKEN'' = Some stopAt121"
  by (simp add: monitorTrailingStop_def trailing121_def stopAt121_def tickAt_def
        noPosition_def truthy_def Let_def binary64_114_95_normal thresholdBelow_121_5)

section \<open>Position sizing\<close>

text \<open>
  Claim C4. For a token with a liquidity of at least 2.5 (a token reaches
  \<open>calculateOptimalBuyAmount\<close> through the filter of \<open>scoreTokenSignals\<close>, which keeps a
  liquidity of at least 50000), a positive \<open>maxDrawdown\<close> and a wallet balance that is not
  negative: the function returns exactly 0 whenever the drawdown is at least
  \<open>maxDrawdown\<close>; and whenever the available capital
  \<open>walletBalance * (1 - drawdown / maxDrawdown)\<close> is positive, the result lies between the
  minimum trade size 0.05 and \<open>liquidity * 0.02\<close>, for every score, volatility and market
  condition.
\<close>

theorem calculateOptimalBuyAmount_bounds:
  assumes "0 < maxDrawdown limits" and "0 \<le> walletBalance"
    and "5 / 2 \<le> signal_liquidity token"
  shows "(maxDrawdown limits \<le> dd \<longrightarrow>
            calculateOptimalBuyAmount limits walletBalance dd token marketCondition = 0)
       \<and> (0 < walletBalance * (1 - dd / maxDrawdown limits) \<longrightarrow>
            0.05 \<le> calculateOptimalBuyAmount limits walletBalance dd token marketCondition
          \<and> calculateOptimalBuyAmount limits walletBalance dd token marketCondition
              \<le> signal_liquidity token * 0.02)"
proof (intro conjI impI)
  assume "maxDrawdown limits \<le> dd"
  then have "1 \<le> dd / maxDrawdown limits" using assms(1) by (simp add: le_divide_eq)
  then have "walletBalance * (1 - dd / maxDrawdown limits) \<le> 0"
    using assms(2) by (simp add: mult_nonneg_nonpos)
  then show "calculateOptimalBuyAmount limits walletBalance dd token marketCondition = 0"
    by (simp add: calculateOptimalBuyAmount_def Let_def)
next
  assume "0 < walletBalance * (1 - dd / maxDrawdown limits)"
  then show "0.05 \<le> calculateOptimalBuyAmount limits walletBalance dd token marketCondition"
    by (simp add: calculateOptimalBuyAmount_def Let_def)
next
  assume "0 < walletBalance * (1 - dd / maxDrawdown limits)"
  moreover have "0.05 \<le> signal_liquidity token * 0.02" using assms(3) by simp
  ultimately show "calculateOptimalBuyAmount limits walletBalance dd token marketCondition
              \<le> signal_liquidity token * 0.02"
    by (simp add: calculateOptimalBuyAmount_def Let_def max_def min_def)
qed

text \<open>A wallet of 8 with \<open>maxDrawdown\<close> 0.5 and a token of score 100, liquidity 50000 and
  volatility 0.5: nothing at a drawdown of 0.5, and 1 at a drawdown of 0.\<close>

theorem calculateOptimalBuyAmount_bounds_witness:
  "calculateOptimalBuyAmount
       \<lparr>maxPositionSize = 0.25, maxDrawdown = 0.5, stopLossPercentage = 5,
        takeProfitPercentage = 20\<rparr> 8 0.5
       \<lparr>score = 100, signal_liquidity = 50000, volatility = Some 0.5\<rparr> bearish = 0
   \<and> calculateOptimalBuyAmount
       \<lparr>maxPositionSize = 0.25, maxDrawdown = 0.5, stopLossPercentage = 5,
        takeProfitPercentage = 20\<rparr> 8 0
       \<lparr>score = 100, signal_liquidity = 50000, volatility = Some 0.5\<rparr> neutral = 1
   \<and> (5 / 100 :: real) \<le> 1 \<and> (1 :: real) \<le> 50000 * 0.02"
  using calculateOptimalBuyAmount_bounds
          [where limits = "\<lparr>maxPositionSize = 0.25, maxDrawdown = 0.5,
                             stopLossPercentage = 5, takeProfitPercentage = 20\<rparr>"
             and walletBalance = 8 and dd = "0.5"
             and token = "\<lparr>score = 100, signal_liquidity = 50000, volatility = Some 0.5\<rparr>"
             and marketCondition = bearish]
        calculateOptimalBuyAmount_bounds
          [where limits = "\<lparr>maxPositionSize = 0.25, maxDrawdown = 0.5,
                             stopLossPercentage = 5, takeProfitPercentage = 20\<rparr>"
             and walletBalance = 8 and dd = 0
             and token = "\<lparr>score = 100, signal_liquidity = 50000, volatility = Some 0.5\<rparr>"
             and marketCondition = neutral]
  by (simp add: calculateOptimalBuyAmount_def truthy_def Let_def)

section \<open>Dynamic slippage\<close>

text \<open>
  Claim C5. For a rounding that keeps the order, settings whose base slippage is not
  negative and has a half that is a number of the arithmetic, a positive liquidity
  multiplier, a maximum of at least half the base, and a special adjustment that is not
  negative: for every liquidity percentage and every ratio of volume to market cap,
  infinite ones and \<open>NaN\<close> included, the slippage after the cap is a finite number between
  \<open>baseSlippage * 0.5\<close> and \<open>maxSlippage\<close>; and for every token and trade
  \<open>calculateDynamicSlippage\<close> returns the floor of the rounded product of that slippage
  and 100, which lies between the floors for the two bounds.
\<close>

theorem calculateDynamicSlippage_bounds:
  assumes "roundsMonotone rnd"
    and "rnd (baseSlippage s * 0.5) = baseSlippage s * 0.5"
    and "0 \<le> baseSlippage s" and "0 < liquidityMultiplier s"
    and "baseSlippage s * 0.5 \<le> maxSlippage s"
    and "\<forall>a. special = Some a \<longrightarrow> 0 \<le> a"
  shows "jsBetween (baseSlippage s * 0.5) (maxSlippage s) (finalSlippage rnd s lp v special)
       \<and> (\<exists>f. finalSlippage rnd s (liquidityPercentageOf rnd td tradeAmount isSell)
                  (volumeToMcapRatioOf rnd td) special = Fin f
              \<and> calculateDynamicSlippage rnd s (Some td) tradeAmount isSell special
                  = Fin (of_int \<lfloor>rnd (f * 100)\<rfloor>)
              \<and> \<lfloor>rnd (baseSlippage s * 0.5 * 100)\<rfloor> \<le> \<lfloor>rnd (f * 100)\<rfloor>
              \<and> \<lfloor>rnd (f * 100)\<rfloor> \<le> \<lfloor>rnd (maxSlippage s * 100)\<rfloor>)"
proof
  show "jsBetween (baseSlippage s * 0.5) (maxSlippage s) (finalSlippage rnd s lp v special)"
    using assms by (rule finalSlippage_between)
next
  let ?final = "finalSlippage rnd s (liquidityPercentageOf rnd td tradeAmount isSell)
                  (volumeToMcapRatioOf rnd td) special"
  have "jsBetween (baseSlippage s * 0.5) (maxSlippage s) ?final"
    using assms by (rule finalSlippage_between)
  then obtain f where f: "?final = Fin f"
    and lo: "baseSlippage s * 0.5 \<le> f" and hi: "f \<le> maxSlippage s"
    by (cases ?final) (simp_all add: jsBetween_def)
  have mono: "\<And>x y. 0 \<le> x \<Longrightarrow> x \<le> y \<Longrightarrow> rnd x \<le> rnd y"
    using assms(1) unfolding roundsMonotone_def by blast
  have "rnd (baseSlippage s * 0.5 * 100) \<le> rnd (f * 100)"
    using assms(3) lo by (intro mono) simp_all
  then have b1: "\<lfloor>rnd (baseSlippage s * 0.5 * 100)\<rfloor> \<le> \<lfloor>rnd (f * 100)\<rfloor>" by (rule floor_mono)
  have "0 \<le> f" using assms(3) lo by simp
  then have "rnd (f * 100) \<le> rnd (maxSlippage s * 100)"
    using hi by (intro mono) simp_all
  then have b2: "\<lfloor>rnd (f * 100)\<rfloor> \<le> \<lfloor>rnd (maxSlippage s * 100)\<rfloor>" by (rule floor_mono)
  have "calculateDynamicSlippage rnd s (Some td) tradeAmount isSell special
          = Fin (of_int \<lfloor>rnd (f * 100)\<rfloor>)"
    by (simp add: calculateDynamicSlippage_def Let_def f jsFloor_def)
  with f b1 b2 show "\<exists>f. ?final = Fin f
              \<and> calculateDynamicSlippage rnd s (Some td) tradeAmount isSell special
                  = Fin (of_int \<lfloor>rnd (f * 100)\<rfloor>)
              \<and> \<lfloor>rnd (baseSlippage s * 0.5 * 100)\<rfloor> \<le> \<lfloor>rnd (f * 100)\<rfloor>
              \<and> \<lfloor>rnd (f * 100)\<rfloor> \<le> \<lfloor>rnd (maxSlippage s * 100)\<rfloor>"
    by blast
qed

text \<open>In binary64 with the starting settings: a buy of 1 into a pool of 100000 with a
  special adjustment of 0.08 has the slippage 0.58, whose product with 100 rounds to
  57.99999999999999, so 57 basis points are returned; a token without liquidity and
  market cap has an infinite liquidity percentage and gets the maximum, 100 basis
  points. In exact arithmetic: a buy of 1000 into a pool of 100000 with a daily volume
  of a tenth of the market cap goes from 0.5 to 0.51 and down to the floor 0.25.\<close>

theorem calculateDynamicSlippage_bounds_witness:
  "roundsMonotone binary64
   \<and> calculateDynamicSlippage binary64 defaultSlippage
       (Some \<lparr>price = 1, marketCap = 1000000, liquidity = 100000, volume24h = 10000\<rparr>)
       1 False (Some (binary64 (8 / 100))) = Fin 57
   \<and> calculateDynamicSlippage binary64 defaultSlippage
       (Some \<lparr>price = 0, marketCap = 0, liquidity = 0, volume24h = 0\<rparr>)
       1000 False None = Fin 100
   \<and> calculateDynamicSlippage exact defaultSlippage
       (Some \<lparr>price = 1, marketCap = 1000000, liquidity = 100000, volume24h = 100000\<rparr>)
       1000 False None = Fin 25"
  using calculateDynamicSlippage_bounds
    [where rnd = binary64 and s = defaultSlippage
       and special = "Some (binary64 (8 / 100))" and lp = NaN and v = NaN
       and td = "\<lparr>price = 1, marketCap = 1000000, liquidity = 100000, volume24h = 10000\<rparr>"
       and tradeAmount = 1 and isSell = False]
    calculateDynamicSlippage_bounds
    [where rnd = binary64 and s = defaultSlippage
       and special = None and lp = PosInf and v = NaN
       and td = "\<lparr>price = 0, marketCap = 0, liquidity = 0, volume24h = 0\<rparr>"
       and tradeAmount = 1000 and isSell = False]
    calculateDynamicSlippage_bounds
    [where rnd = exact and s = defaultSlippage
       and special = None and lp = "Fin 1" and v = "Fin (1 / 10)"
       and td = "\<lparr>price = 1, marketCap = 1000000, liquidity = 100000, volume24h = 100000\<rparr>"
       and tradeAmount = 1000 and isSell = False]
    roundsMonotone_binary64 roundsMonotone_exact
  by (simp add: defaultSlippage_def binary64_quarter binary64_8_percent)
     (simp add: calculateDynamicSlippage_def finalSlippage_def slippageBeforeCap_def
        liquidityPercentageOf_def volumeToMcapRatioOf_def jsDivide_def jsdiv_def
        jsGreater_def jsMin_def jsMax_def jsFloor_def jsPow15_def infiniteTimes_def
        signedInfinity_def Let_def exact_def
        binary64_trade_share binary64_trade_percent binary64_tenth binary64_hundredth
        binary64_twentieth binary64_8_percent binary64_half binary64_quarter
        binary64_58_percent binary64_58 binary64_100 binary64_25)

section \<open>Circuit breaker\<close>

text \<open>
  Claim C6. \<open>checkCircuitBreaker\<close> changes nothing when the price history of the
  reference asset has fewer than 24 samples. Otherwise (for a history without a zero
  price, where the two measurements are finite) it decides on the percentage
  change of the current price against the sample at index 6 and on the volatility of the
  history: if the absolute change is above 15 or the volatility above 0.6 it stores the
  trading-paused entry, expiring one hour (3600000 ms) later, and the circuit-breaker
  entry, whose reason is \<open>extreme_price_movement\<close> when the absolute change is above 15
  and \<open>high_volatility\<close> otherwise; if neither holds it changes nothing.
\<close>

theorem checkCircuitBreaker_decision:
  "(length (priceHistory solData) < 24 \<longrightarrow> checkCircuitBreaker solData now cache = cache)
   \<and> (24 \<le> length (priceHistory solData) \<and> 0 \<notin> set (priceHistory solData) \<longrightarrow>
        checkCircuitBreaker solData now cache =
          decideCircuitBreaker
            (((price solData - priceHistory solData ! 6) / priceHistory solData ! 6) * 100)
            (calculateVolatility (priceHistory solData)) now cache)
   \<and> (\<bar>pct\<bar> > 15 \<or> vol > 0.6 \<longrightarrow>
        trading_paused (decideCircuitBreaker pct vol now cache) =
          Some \<lparr>paused = True, paused_reason = ''Circuit breaker triggered'',
                paused_timestamp = now, expiryTime = now + 3600000\<rparr>
        \<and> circuit_breaker (decideCircuitBreaker pct vol now cache) =
          Some \<lparr>triggered = True,
                breaker_reason =
                  (if \<bar>pct\<bar> > 15 then extreme_price_movement else high_volatility),
                breaker_timestamp = now, details_priceChangePercent = pct,
                details_volatility = vol\<rparr>)
   \<and> (\<not> (\<bar>pct\<bar> > 15 \<or> vol > 0.6) \<longrightarrow> decideCircuitBreaker pct vol now cache = cache)"
  by (simp add: checkCircuitBreaker_def decideCircuitBreaker_def circuitBreakerTriggered_def
        pauseTrades_def Let_def)

text \<open>The examples of the specification: a change of 16 with volatility 0.3 pauses for
  \<open>extreme_price_movement\<close>, a change of 10 with volatility 0.65 for \<open>high_volatility\<close>, a
  change of 10 with volatility 0.3 does not pause. And four runs from market data: no
  history; a steady history of 24 samples at 100 with the price at 116 (a change of 16,
  volatility 0) and at 110 (a change of 10); a history of 24 samples swinging between
  100 and 300 with the price at 110 (a change of 10, volatility above 1.3).\<close>

theorem checkCircuitBreaker_decision_witness:
  "map_option breaker_reason (circuit_breaker (decideCircuitBreaker 16 0.3 0 calm))
       = Some extreme_price_movement
   \<and> map_option expiryTime (trading_paused (decideCircuitBreaker 16 0.3 0 calm))
       = Some 3600000
   \<and> map_option breaker_reason (circuit_breaker (decideCircuitBreaker 10 0.65 0 calm))
       = Some high_volatility
   \<and> map_option paused (trading_paused (decideCircuitBreaker 10 0.65 0 calm)) = Some True
   \<and> decideCircuitBreaker 10 0.3 0 calm = calm
   \<and> checkCircuitBreaker (tickAt 116) 0 calm = calm
   \<and> map_option breaker_reason (circuit_breaker (checkCircuitBreaker (steadyMarket 116) 0 calm))
       = Some extreme_price_movement
   \<and> checkCircuitBreaker (steadyMarket 110) 0 calm = calm
   \<and> map_option breaker_reason (circuit_breaker (checkCircuitBreaker (swingingMarket 110) 0 calm))
       = Some high_volatility
   \<and> map_option expiryTime (trading_paused (checkCircuitBreaker (swingingMarket 110) 0 calm))
       = Some 3600000"
  using checkCircuitBreaker_decision [where pct = 16 and vol = "0.3" and now = 0 and cache = calm
          and solData = "tickAt 116"]
        checkCircuitBreaker_decision [where pct = 10 and vol = "0.65" and now = 0 and cache = calm
          and solData = "steadyMarket 116"]
        checkCircuitBreaker_decision [where pct = 10 and vol = "0.3" and now = 0 and cache = calm
          and solData = "steadyMarket 110"]
        checkCircuitBreaker_decision [where pct = 16 and vol = 0 and now = 0 and cache = calm
          and solData = "steadyMarket 110"]
        checkCircuitBreaker_decision [where pct = 10 and vol = 0 and now = 0 and cache = calm
          and solData = "steadyMarket 110"]
        checkCircuitBreaker_decision [where pct = 10 and vol = "calculateVolatility swings"
          and now = 0 and cache = calm and solData = "swingingMarket 110"]
        volatility_steady [of 116] volatility_steady [of 110] swings_volatile
  by (simp add: tickAt_def steadyMarket_def swingingMarket_def)
     (simp add: swings_def)

section \<open>Portfolio status\<close>

text \<open>
  Claim C7 at a failing input. From the empty cache the service starts with, a wallet
  balance of 150 and no monitored token give a status with the total value 150, and the
  entry of the high-water mark is still missing afterwards; the next evaluation, at a
  total value of 100, reports the drawdown 0. The mark is never stored:
  \<open>getPortfolioStatus\<close> does not write it (\<open>getPortfolioStatus_keeps_mark\<close>), so it reads 0 for
  the mark and reports the drawdown 0 every time (\<open>getPortfolioStatus_without_mark\<close>), and
  \<open>calculateDrawdown\<close>, which clamps the drawdown and raises its mark
  (\<open>calculateDrawdown_clamped\<close>), is not called.
\<close>

theorem getPortfolioStatus_never_stores_mark:
  "getPortfolioStatus 150 [] None =
     (\<lparr>totalValue = 150, positions = [], solBalance = 150, drawdown = 0\<rparr>, None)
   \<and> getPortfolioStatus 100 [] (snd (getPortfolioStatus 150 [] None)) =
     (\<lparr>totalValue = 100, positions = [], solBalance = 100, drawdown = 0\<rparr>, None)"
  by (simp add: getPortfolioStatus_def getHighWaterMark_def)

section \<open>Pending sells\<close>

text \<open>
  Claim C8. Starting from pending sells without an entry at or below zero, with sell
  amounts that are not negative: one invocation of \<open>handleSellSignal\<close> leaves the pending
  sells as they were, whatever the collaborators do (the quote throws, no wallet, the sell
  throws, fails or succeeds) and also when the amount is not a \<open>bigint\<close>; an invocation
  is the increment followed by the \<open>finally\<close> block with the same amount; and in every
  state that overlapping invocations reach, the counter of each token is its starting
  value plus the volume in flight on the token, so it is never below zero, and once
  nothing is in flight the pending sells are exactly the starting ones (a counter that
  is back at zero has no entry).
\<close>

theorem handleSellSignal_pending_counter:
  assumes "positiveEntries pending0"
    and "list_all (\<lambda>e. 0 \<le> eventAmount e) schedule"
    and "runSchedule schedule (pending0, []) = Some (pending, inflight)"
  shows "(\<forall>msg run. snd (handleSellSignal msg run pending0) = pending0)
       \<and> (\<forall>t a run. runSchedule [Begin t a, Finish t a] (pending, inflight) =
            Some (snd (handleSellSignal \<lparr>message_token = t, message_amount = Some a\<rparr> run pending),
                  inflight))
       \<and> (\<forall>t. pendingOrZero pending t = pendingOrZero pending0 t + inflightOn t inflight)
       \<and> (\<forall>t. 0 \<le> pendingOrZero pending t)
       \<and> (inflight = [] \<longrightarrow> pending = pending0)"
proof -
  have inv: "scheduleInv pending0 (pending, inflight)"
    using assms(1) scheduleInv_start assms(2,3) by (rule runSchedule_inv)
  then have a: "\<forall>t. pendingOrZero pending t = pendingOrZero pending0 t + inflightOn t inflight"
    by (simp add: scheduleInv_def)
  have "0 \<le> inflightOn t inflight" for t
    using inv by (intro inflightOn_nonneg) (simp add: scheduleInv_def)
  then have b: "\<forall>t. 0 \<le> pendingOrZero pending t"
    using a pendingOrZero_nonneg [OF assms(1)] by (simp add: add_nonneg_nonneg)
  have c: "inflight = [] \<longrightarrow> pending = pending0"
    using inv by (auto simp: scheduleInv_def)
  have d: "\<forall>msg run. snd (handleSellSignal msg run pending0) = pending0"
    using handleSellSignal_restores [OF assms(1)] by simp
  have e: "\<forall>t a run. runSchedule [Begin t a, Finish t a] (pending, inflight) =
            Some (snd (handleSellSignal \<lparr>message_token = t, message_amount = Some a\<rparr> run pending),
                  inflight)"
    by (simp add: handleSellSignal_def Let_def)
  from a b c d e show ?thesis by blast
qed

text \<open>Two overlapping sells of 30 and 20 on one token, from no pending sells: after both
  the map is empty again; between the first \<open>finally\<close> block and the second the counter
  is 20.\<close>

theorem handleSellSignal_pending_counter_witness:
  "positiveEntries Map.empty
   \<and> runSchedule [Begin ''TOKEN'' 30, Begin ''TOKEN'' 20, Finish ''TOKEN'' 30, Finish ''TOKEN'' 20]
        (Map.empty, []) = Some (Map.empty, [])
   \<and> runSchedule [Begin ''TOKEN'' 30, Begin ''TOKEN'' 20, Finish ''TOKEN'' 30]
        (Map.empty, []) = Some ([''TOKEN'' \<mapsto> 20], [(''TOKEN'', 20)])
   \<and> pendingOrZero [''TOKEN'' \<mapsto> 20] ''TOKEN'' = 0 + inflightOn ''TOKEN'' [(''TOKEN'', 20)]
   \<and> snd (handleSellSignal \<lparr>message_token = ''TOKEN'', message_amount = Some 30\<rparr>
             (SellThrows ''timeout'') Map.empty) = Map.empty"
  using handleSellSignal_pending_counter
    [where ?pending0.0 = Map.empty
       and schedule = "[Begin ''TOKEN'' 30, Begin ''TOKEN'' 20, Finish ''TOKEN'' 30,
                        Finish ''TOKEN'' 20]"
       and pending = Map.empty and inflight = "[]"]
    handleSellSignal_pending_counter
    [where ?pending0.0 = Map.empty
       and schedule = "[Begin ''TOKEN'' 30, Begin ''TOKEN'' 20, Finish ''TOKEN'' 30]"
       and pending = "[''TOKEN'' \<mapsto> 20]" and inflight = "[(''TOKEN'', 20)]"]
  by (simp add: positiveEntries_def recordPendingSell_def releasePendingSell_def
        pendingOrZero_def inflightOn_def handleSellSignal_def Let_def)

section \<open>Technical indicators\<close>

text \<open>
  Claim C9, as amended. For a non-empty series and a positive period, \<open>calculateEMA\<close>
  returns the last element of the series when the series is shorter than the period, and
  otherwise the value of the recurrence \<open>E' = k * p + (1 - k) * E\<close> with
  \<open>k = 2 / (period + 1)\<close>, started from the simple average of the first \<open>period\<close>
  elements and run over the remaining ones.
\<close>

theorem calculateEMA_last_or_recurrence:
  assumes "prices \<noteq> []" and "0 < period"
  shows "calculateEMA prices period =
           Some (Fin (if length prices < period then last prices else specEMA prices period))"
  using assms
  by (simp add: calculateEMA_def emaValue_def emaSeed_def specEMA_def simpleAverage_def
        foldl_add_sum_list emaLoop_emaRecurrence)

theorem calculateEMA_last_or_recurrence_witness:
  "[1, 2, 3, 4 :: real] \<noteq> [] \<and> (0::nat) < 2
   \<and> calculateEMA [1, 2, 3, 4] 2 = Some (Fin (7 / 2))
   \<and> [1, 3 :: real] \<noteq> [] \<and> (0::nat) < 5 \<and> calculateEMA [1, 3] 5 = Some (Fin 3)"
  using calculateEMA_last_or_recurrence [of "[1, 2, 3, 4]" 2]
        calculateEMA_last_or_recurrence [of "[1, 3]" 5]
  by (simp add: specEMA_def simpleAverage_def)

text \<open>Claim C9 as the specification has it fails below \<open>period\<close> samples: for the series
  1, 3 and the period 5 the code returns 3, the simple average is 2.\<close>

theorem calculateEMA_short_series_counterexample:
  "calculateEMA [1, 3] 5 = Some (Fin 3) \<and> specEMA [1, 3] 5 = 2
   \<and> calculateEMA [1, 3] 5 \<noteq> Some (Fin (specEMA [1, 3] 5))"
  by (simp add: calculateEMA_def emaValue_def specEMA_def simpleAverage_def)

text \<open>
  Claim C10. For a positive period and a series of more than \<open>period\<close> prices that never
  falls, the average loss is 0 when \<open>calculateRSI\<close> divides by it: the result is \<open>NaN\<close>
  when the average gain is 0 as well, as for every constant series of that length, and
  100 otherwise. So the division by zero is reached, and the result is not always a number
  between 0 and 100.
\<close>

theorem calculateRSI_divides_by_zero:
  assumes "0 < period" and "period < length prices" and "sorted prices"
  shows "snd (rsiAverages prices period) = 0
         \<and> calculateRSI prices period =
             (if fst (rsiAverages prices period) = 0 then NaN else Fin 100)
         \<and> calculateRSI (replicate (length prices) c) period = NaN"
proof -
  have z: "snd (rsiAverages prices period) = 0"
    using rsiAverages_sorted assms by simp
  have c: "rsiAverages (replicate (length prices) c) period = (0, 0)"
    using rsiAverages_constant assms by simp
  show ?thesis
    using z c assms
    by (auto simp: calculateRSI_def jsdiv_def rsiOfRs_def split: prod.splits)
qed

theorem calculateRSI_divides_by_zero_witness:
  "sorted [1, 2, 3 :: real] \<and> snd (rsiAverages [1, 2, 3] 2) = 0
   \<and> calculateRSI [1, 2, 3] 2 = Fin 100
   \<and> calculateRSI [7, 7, 7] 2 = NaN"
  using calculateRSI_divides_by_zero [where prices = "[1, 2, 3]" and period = 2 and c = 7]
  by (simp add: rsiAverages_def rsiInitStep_def rsiSmoothStep_def numeral_3_eq_3
        numeral_2_eq_2)

end
